theory Spec2Isabelle
  imports Main "HOL-Library.Char_ord" "HOL-Library.List_Lexorder"
begin

section \<open>Strings and number formatting\<close>

text \<open>
  Python strings are modelled as \<^typ>\<open>string\<close>; every character stands for one code
  point below 256.  Byte strings (subprocess output, EXIF values) are \<^typ>\<open>string\<close> too,
  one character per byte.
\<close>

definition digit_char :: "nat \<Rightarrow> char" where
  "digit_char d = char_of (48 + d)"

text \<open>\<^verbatim>\<open>str(n)\<close> for a non-negative integer: its decimal digits, most significant first.\<close>

function digits :: "nat \<Rightarrow> string" where
  "digits n = (if n < 10 then [digit_char n] else digits (n div 10) @ [digit_char (n mod 10)])"
  by pat_completeness auto
termination
  by (relation "measure (\<lambda>n. n)") auto

declare digits.simps [simp del]

text \<open>\<^verbatim>\<open>s.zfill(w)\<close> on a string of digits: zeros on the left up to width \<open>w\<close>.\<close>

definition zfill :: "nat \<Rightarrow> string \<Rightarrow> string" where
  "zfill w s = replicate (w - length s) CHR ''0'' @ s"

text \<open>
  The format specification \<^verbatim>\<open>03d\<close>: sign-aware zero padding to a minimum total width of
  three; a longer number is printed in full.
\<close>

definition fmt_03d :: "int \<Rightarrow> string" where
  "fmt_03d n = (if n < 0 then ''-'' @ zfill 2 (digits (nat (- n))) else zfill 3 (digits (nat n)))"

section \<open>Datetime values\<close>

text \<open>
  A \<^verbatim>\<open>datetime\<close> object.  \<open>utcoffset\<close> is \<open>None\<close> for a naive value and the offset in
  minutes for an aware one.  Python only builds values with \<open>1 \<le> year \<le> 9999\<close>,
  \<open>1 \<le> month \<le> 12\<close> and a day that exists in that month.
\<close>

record datetime =
  year :: nat
  month :: nat
  day :: nat
  hour :: nat
  minute :: nat
  second :: nat
  microsecond :: nat
  utcoffset :: "int option"

definition days_in_month :: "nat \<Rightarrow> nat \<Rightarrow> nat" where
  "days_in_month y m =
     (if m = 2 then (if y mod 4 = 0 \<and> (y mod 100 \<noteq> 0 \<or> y mod 400 = 0) then 29 else 28)
      else if m \<in> {4, 6, 9, 11} then 30 else 31)"

definition valid_datetime :: "datetime \<Rightarrow> bool" where
  "valid_datetime dt \<longleftrightarrow>
     1 \<le> year dt \<and> year dt \<le> 9999 \<and> 1 \<le> month dt \<and> month dt \<le> 12 \<and>
     1 \<le> day dt \<and> day dt \<le> days_in_month (year dt) (month dt) \<and>
     hour dt < 24 \<and> minute dt < 60 \<and> second dt < 60 \<and> microsecond dt < 1000000"

text \<open>
  \<^verbatim>\<open>dt.strftime("%Y_%m_%d")\<close>: the year as four digits, the month and the day as two,
  as the datetime documentation gives the directives.
\<close>

definition strftime_Ymd :: "datetime \<Rightarrow> string" where
  "strftime_Ymd dt =
     zfill 4 (digits (year dt)) @ ''_'' @ zfill 2 (digits (month dt)) @ ''_'' @ zfill 2 (digits (day dt))"

section \<open>Program state\<close>

text \<open>
  \<open>date_counters\<close> is the module-level \<^verbatim>\<open>defaultdict(int)\<close>; \<open>stdout\<close> holds the argument of
  every \<^verbatim>\<open>print\<close> call in order; \<open>ran\<close> the argument lists handed to \<^verbatim>\<open>subprocess.run\<close>;
  \<open>written\<close> the destination paths of the copies and conversions that succeeded.
\<close>

record state =
  date_counters :: "string \<rightharpoonup> int"
  stdout :: "string list"
  ran :: "string list list"
  written :: "string list"

definition init_state :: state where
  "init_state = \<lparr>date_counters = Map.empty, stdout = [], ran = [], written = []\<rparr>"

text \<open>Reading a \<^verbatim>\<open>defaultdict(int)\<close>: a missing key reads as 0.\<close>

definition counter_of :: "(string \<rightharpoonup> int) \<Rightarrow> string \<Rightarrow> int" where
  "counter_of m k = (case m k of None \<Rightarrow> 0 | Some c \<Rightarrow> c)"

section \<open>The sequence namer\<close>

definition generate_name_with_counter :: "datetime \<Rightarrow> string \<Rightarrow> state \<Rightarrow> string \<times> state" where
  "generate_name_with_counter dt ext s =
     (let date_str = strftime_Ymd dt;
          s' = s\<lparr>date_counters := (date_counters s)(date_str \<mapsto> counter_of (date_counters s) date_str + 1)\<rparr>;
          counter = counter_of (date_counters s') date_str
      in (date_str @ ''_'' @ fmt_03d counter @ ext, s'))"

section \<open>String helpers from the Python library\<close>

text \<open>\<^verbatim>\<open>str.lower()\<close> on code points below 256: A to Z and the accented capitals move up by 32.\<close>

definition char_lower :: "char \<Rightarrow> char" where
  "char_lower c =
     (let n = (of_char c :: nat)
      in if (65 \<le> n \<and> n \<le> 90) \<or> (192 \<le> n \<and> n \<le> 214) \<or> (216 \<le> n \<and> n \<le> 222)
         then char_of (n + 32) else c)"

definition str_lower :: "string \<Rightarrow> string" where
  "str_lower s = map char_lower s"

text \<open>\<^verbatim>\<open>str.strip()\<close>: the characters for which \<^verbatim>\<open>isspace()\<close> holds are removed at both ends.\<close>

definition is_space :: "char \<Rightarrow> bool" where
  "is_space c \<longleftrightarrow> (of_char c :: nat) \<in> {9, 10, 11, 12, 13, 28, 29, 30, 31, 32, 133, 160}"

definition str_strip :: "string \<Rightarrow> string" where
  "str_strip s = rev (dropWhile is_space (rev (dropWhile is_space s)))"

text \<open>\<^verbatim>\<open>s.replace(c, new)\<close> for a one-character pattern: every occurrence is replaced.\<close>

definition str_replace :: "char \<Rightarrow> string \<Rightarrow> string \<Rightarrow> string" where
  "str_replace c new s = concat (map (\<lambda>x. if x = c then new else [x]) s)"

text \<open>
  \<^verbatim>\<open>os.path.splitext(p)[1]\<close> (POSIX): the text from the last dot of the final path
  component, provided a character other than a dot stands before that dot in the
  component; the empty string otherwise.
\<close>

definition splitext_ext :: "string \<Rightarrow> string" where
  "splitext_ext p =
     (let base = rev (takeWhile (\<lambda>c. c \<noteq> CHR ''/'') (rev p));
          suffix = rev (takeWhile (\<lambda>c. c \<noteq> CHR ''.'') (rev base));
          stem = take (length base - length suffix - 1) base
      in if CHR ''.'' \<in> set base \<and> filter (\<lambda>c. c \<noteq> CHR ''.'') stem \<noteq> []
         then CHR ''.'' # suffix else [])"

text \<open>\<^verbatim>\<open>os.path.join(a, b)\<close> (POSIX) for two components.\<close>

definition path_join :: "string \<Rightarrow> string \<Rightarrow> string" where
  "path_join a b =
     (if b \<noteq> [] \<and> hd b = CHR ''/'' then b
      else if a = [] \<or> last a = CHR ''/'' then a @ b
      else a @ ''/'' @ b)"

text \<open>
  \<^verbatim>\<open>shlex.quote(s)\<close>: a string of letters, digits and \<^verbatim>\<open>_@%+=:,./-\<close> is returned as it is;
  any other is wrapped in single quotes, each single quote inside written as
  quote, double-quoted quote, quote.
\<close>

definition is_safe_char :: "char \<Rightarrow> bool" where
  "is_safe_char c =
     (let n = (of_char c :: nat)
      in (48 \<le> n \<and> n \<le> 57) \<or> (65 \<le> n \<and> n \<le> 90) \<or> (97 \<le> n \<and> n \<le> 122) \<or>
         c \<in> set ''_@%+=:,./-'')"

definition shlex_quote :: "string \<Rightarrow> string" where
  "shlex_quote s =
     (if s = [] then [CHR 0x27, CHR 0x27]
      else if list_all is_safe_char s then s
      else [CHR 0x27] @
           str_replace (CHR 0x27) [CHR 0x27, CHR 0x22, CHR 0x27, CHR 0x22, CHR 0x27] s @
           [CHR 0x27])"

section \<open>Exceptions and the outside world\<close>

text \<open>
  An exception is an instance of \<^verbatim>\<open>Exception\<close>: its class and the text that \<^verbatim>\<open>str(e)\<close>
  gives.  \<open>UnicodeDecodeError\<close> is a subclass of \<open>ValueError\<close>; the other classes listed
  are unrelated to each other.
\<close>

datatype exn_class =
  OSError | ValueError | UnicodeDecodeError | KeyError | AttributeError | OverflowError |
  CalledProcessError | RuntimeError

datatype exn = Exn exn_class string

fun exn_class_of :: "exn \<Rightarrow> exn_class" where
  "exn_class_of (Exn c m) = c"

fun exn_str :: "exn \<Rightarrow> string" where
  "exn_str (Exn c m) = m"

definition is_ValueError :: "exn \<Rightarrow> bool" where
  "is_ValueError e \<longleftrightarrow> exn_class_of e = ValueError \<or> exn_class_of e = UnicodeDecodeError"

definition is_CalledProcessError :: "exn \<Rightarrow> bool" where
  "is_CalledProcessError e \<longleftrightarrow> exn_class_of e = CalledProcessError"

text \<open>
  A value stored under an EXIF tag as \<^verbatim>\<open>piexif.load\<close> hands it over: a byte string, an
  integer or a tuple.  The loaded dictionary maps the name of an IFD to its tags.
\<close>

datatype exif_value = Bytes string | IntV int | TupleV "exif_value list"

type_synonym exif_dict = "string \<rightharpoonup> (nat \<rightharpoonup> exif_value)"

definition ImageIFD_DateTime :: nat where
  "ImageIFD_DateTime = 306"

text \<open>Truth value of an EXIF value in \<^verbatim>\<open>if date_str:\<close>.\<close>

fun truthy :: "exif_value \<Rightarrow> bool" where
  "truthy (Bytes b) = (b \<noteq> [])"
| "truthy (IntV n) = (n \<noteq> 0)"
| "truthy (TupleV vs) = (vs \<noteq> [])"

text \<open>
  The calls that leave the program, each with the result it gives: \<open>Inl\<close> the exception
  raised, \<open>Inr\<close> the value returned.  \<open>'ts\<close> is the timestamp \<^verbatim>\<open>os.path.getmtime\<close> returns.
  \<open>decode\<close> is \<^verbatim>\<open>bytes.decode()\<close>, \<open>strptime\<close> is \<^verbatim>\<open>datetime.strptime\<close> with its format
  string, \<open>check_output\<close> is \<^verbatim>\<open>subprocess.check_output(cmd, shell=True)\<close>, \<open>subprocess_run\<close>
  is \<^verbatim>\<open>subprocess.run(cmd, check=True)\<close>, \<open>copy2\<close> is \<^verbatim>\<open>shutil.copy2\<close>; \<open>os_walk\<close> lists every
  directory under a root with the files in it.
\<close>

record 'ts world =
  getmtime :: "string \<Rightarrow> exn + 'ts"
  fromtimestamp :: "'ts \<Rightarrow> exn + datetime"
  piexif_load :: "string \<Rightarrow> exn + exif_dict"
  decode :: "string \<Rightarrow> exn + string"
  strptime :: "string \<Rightarrow> string \<Rightarrow> exn + datetime"
  fromisoformat :: "string \<Rightarrow> exn + datetime"
  check_output :: "string \<Rightarrow> exn + string"
  subprocess_run :: "string list \<Rightarrow> exn + unit"
  copy2 :: "string \<Rightarrow> string \<Rightarrow> exn + unit"
  path_exists :: "string \<Rightarrow> bool"
  makedirs :: "string \<Rightarrow> exn + unit"
  os_walk :: "string \<Rightarrow> (string \<times> string list) list"

definition print_line :: "string \<Rightarrow> state \<Rightarrow> state" where
  "print_line msg s = s\<lparr>stdout := stdout s @ [msg]\<rparr>"

section \<open>The timestamp resolver\<close>

text \<open>
  Both resolvers open with the same two statements, outside any \<^verbatim>\<open>try\<close>:
  \<^verbatim>\<open>ts = os.path.getmtime(path)\<close> and \<^verbatim>\<open>fallback_dt = datetime.fromtimestamp(ts)\<close>.
\<close>

definition fallback_dt :: "'ts world \<Rightarrow> string \<Rightarrow> exn + datetime" where
  "fallback_dt w path =
     (case getmtime w path of
        Inl e \<Rightarrow> Inl e
      | Inr ts \<Rightarrow> fromtimestamp w ts)"

text \<open>\<^verbatim>\<open>date_str.decode()\<close>: only a byte string has the method.\<close>

fun value_decode :: "'ts world \<Rightarrow> exif_value \<Rightarrow> exn + string" where
  "value_decode w (Bytes b) = decode w b"
| "value_decode w (IntV n) = Inl (Exn AttributeError ([CHR 0x27] @ ''int'' @ [CHR 0x27] @ '' object has no attribute '' @ [CHR 0x27] @ ''decode'' @ [CHR 0x27]))"
| "value_decode w (TupleV vs) = Inl (Exn AttributeError ([CHR 0x27] @ ''tuple'' @ [CHR 0x27] @ '' object has no attribute '' @ [CHR 0x27] @ ''decode'' @ [CHR 0x27]))"

text \<open>
  The body of the \<^verbatim>\<open>try\<close> in \<^verbatim>\<open>get_photo_datetime\<close>: \<open>Inr (Some dt)\<close> when it returns \<open>dt\<close>,
  \<open>Inr None\<close> when it runs to its end without returning, \<open>Inl e\<close> when it raises \<open>e\<close>.
\<close>

definition photo_try :: "'ts world \<Rightarrow> string \<Rightarrow> exn + datetime option" where
  "photo_try w path =
     (case piexif_load w path of
        Inl e \<Rightarrow> Inl e
      | Inr exif_dict \<Rightarrow>
          (case exif_dict ''0th'' of
             None \<Rightarrow> Inl (Exn KeyError ([CHR 0x27] @ ''0th'' @ [CHR 0x27]))
           | Some ifd \<Rightarrow>
               (case ifd ImageIFD_DateTime of
                  None \<Rightarrow> Inr None
                | Some date_str \<Rightarrow>
                    if truthy date_str then
                      (case value_decode w date_str of
                         Inl e \<Rightarrow> Inl e
                       | Inr txt \<Rightarrow>
                           (case strptime w txt ''%Y:%m:%d %H:%M:%S'' of
                              Inl e \<Rightarrow> Inl e
                            | Inr dt \<Rightarrow> Inr (Some dt)))
                    else Inr None)))"

text \<open>
  The first handler of that \<^verbatim>\<open>try\<close> reads \<^verbatim>\<open>except piexif.Invalidbox as e\<close>.  The piexif
  package defines no name \<open>Invalidbox\<close> (its one exception class is
  \<open>InvalidImageDataError\<close>), so when an exception reaches the handlers, looking the name
  up raises this \<^verbatim>\<open>AttributeError\<close>.
\<close>

definition Invalidbox_lookup_error :: exn where
  "Invalidbox_lookup_error =
     Exn AttributeError
       (''module '' @ [CHR 0x27] @ ''piexif'' @ [CHR 0x27] @ '' has no attribute '' @
        [CHR 0x27] @ ''Invalidbox'' @ [CHR 0x27])"

text \<open>
  The result is the value returned or the exception raised, with the lines printed.  An
  exception raised in the \<^verbatim>\<open>try\<close> is matched against the first handler; the lookup of
  its class raises, that exception leaves the function, and neither handler body (each
  a warning, followed by the return of the fallback) is run.
\<close>

definition get_photo_datetime :: "'ts world \<Rightarrow> string \<Rightarrow> (exn + datetime) \<times> string list" where
  "get_photo_datetime w path =
     (case fallback_dt w path of
        Inl e \<Rightarrow> (Inl e, [])
      | Inr fb \<Rightarrow>
          (case photo_try w path of
             Inr (Some dt) \<Rightarrow> (Inr dt, [])
           | Inr None \<Rightarrow> (Inr fb, [])
           | Inl e \<Rightarrow> (Inl Invalidbox_lookup_error, [])))"

definition creation_time_cmd :: "string \<Rightarrow> string" where
  "creation_time_cmd path =
     ''ffprobe -v error -select_streams v:0 -show_entries format_tags=creation_time '' @
     ''-of default=noprint_wrappers=1:nokey=1 '' @ shlex_quote path"

text \<open>
  The body of the outer \<^verbatim>\<open>try\<close> in \<^verbatim>\<open>get_video_datetime\<close>, the inner \<^verbatim>\<open>try\<close> with its
  \<^verbatim>\<open>except ValueError\<close> included.
\<close>

definition video_try :: "'ts world \<Rightarrow> string \<Rightarrow> (exn + datetime option) \<times> string list" where
  "video_try w path =
     (case check_output w (creation_time_cmd path) of
        Inl e \<Rightarrow> (Inl e, [])
      | Inr out \<Rightarrow>
          (case decode w out of
             Inl e \<Rightarrow> (Inl e, [])
           | Inr txt \<Rightarrow>
               (let creation_time_str = str_strip txt
                in if creation_time_str \<noteq> [] then
                     (case fromisoformat w (str_replace CHR ''Z'' ''+00:00'' creation_time_str) of
                        Inr dt \<Rightarrow> (Inr (Some dt), [])
                      | Inl e \<Rightarrow>
                          if is_ValueError e then
                            (Inr None, [''Warning: Could not parse video creation time '' @ [CHR 0x27] @
                                        creation_time_str @ [CHR 0x27] @ ''. Using mtime.''])
                          else (Inl e, []))
                   else (Inr None, []))))"

definition get_video_datetime :: "'ts world \<Rightarrow> string \<Rightarrow> (exn + datetime) \<times> string list" where
  "get_video_datetime w path =
     (case fallback_dt w path of
        Inl e \<Rightarrow> (Inl e, [])
      | Inr fb \<Rightarrow>
          (case video_try w path of
             (Inr (Some dt), out) \<Rightarrow> (Inr dt, out)
           | (Inr None, out) \<Rightarrow> (Inr fb, out)
           | (Inl e, out) \<Rightarrow>
               if is_CalledProcessError e then (Inr fb, out)
               else (Inr fb, out @ [''Warning: Error during ffprobe for video '' @ path @ '': '' @
                                    exn_str e @ ''. Falling back to mtime.''])))"

section \<open>Photo copier and video converter\<close>

text \<open>
  Each returns the destination path or the exception raised, and the state as the
  call left it: what was printed and counted before a failure stays.
\<close>

definition copy_photo :: "'ts world \<Rightarrow> string \<Rightarrow> string \<Rightarrow> state \<Rightarrow> (exn + string) \<times> state" where
  "copy_photo w src dst_dir s =
     (case get_photo_datetime w src of
        (Inl e, out) \<Rightarrow> (Inl e, s\<lparr>stdout := stdout s @ out\<rparr>)
      | (Inr dt, out) \<Rightarrow>
          (let s1 = s\<lparr>stdout := stdout s @ out\<rparr>;
               ext = str_lower (splitext_ext src);
               named = generate_name_with_counter dt ext s1;
               dst_name = fst named;
               s2 = snd named;
               dst_path = path_join dst_dir dst_name
           in case copy2 w src dst_path of
                Inl e \<Rightarrow> (Inl e, s2)
              | Inr u \<Rightarrow>
                  (Inr dst_path,
                   (print_line (''-> Copied to: '' @ dst_path) s2)\<lparr>written := written s2 @ [dst_path]\<rparr>)))"

definition audio_codec_cmd :: "string \<Rightarrow> string" where
  "audio_codec_cmd src =
     ''ffprobe -v error -select_streams a:0 -show_entries stream=codec_name '' @
     ''-of default=noprint_wrappers=1:nokey=1 '' @ shlex_quote src"

text \<open>
  The probe of the audio codec with its \<^verbatim>\<open>except subprocess.CalledProcessError\<close>, which
  sets the codec to \<^verbatim>\<open>"unknown"\<close>; any other exception leaves \<^verbatim>\<open>convert_video\<close>.
\<close>

definition probe_audio_codec :: "'ts world \<Rightarrow> string \<Rightarrow> exn + string" where
  "probe_audio_codec w src =
     (case check_output w (audio_codec_cmd src) of
        Inl e \<Rightarrow> if is_CalledProcessError e then Inr ''unknown'' else Inl e
      | Inr out \<Rightarrow>
          (case decode w out of
             Inl e \<Rightarrow> if is_CalledProcessError e then Inr ''unknown'' else Inl e
           | Inr txt \<Rightarrow> Inr (str_strip txt)))"

text \<open>The ffmpeg command line as \<^verbatim>\<open>convert_video\<close> assembles it.\<close>

definition ffmpeg_cmd :: "string \<Rightarrow> string \<Rightarrow> string \<Rightarrow> string list" where
  "ffmpeg_cmd src audio_codec dst_path =
     [''ffmpeg'', ''-i'', src, ''-map_metadata'', ''0'', ''-c:v'', ''copy'', ''-movflags'', ''+faststart''] @
     (if audio_codec \<noteq> ''aac'' then [''-c:a'', ''aac'', ''-b:a'', ''192k''] else [''-c:a'', ''copy'']) @
     [dst_path]"

definition convert_video :: "'ts world \<Rightarrow> string \<Rightarrow> string \<Rightarrow> state \<Rightarrow> (exn + string) \<times> state" where
  "convert_video w src dst_dir s =
     (case get_video_datetime w src of
        (Inl e, out) \<Rightarrow> (Inl e, s\<lparr>stdout := stdout s @ out\<rparr>)
      | (Inr dt, out) \<Rightarrow>
          (let s1 = s\<lparr>stdout := stdout s @ out\<rparr>;
               ext = ''.mp4'';
               named = generate_name_with_counter dt ext s1;
               dst_name = fst named;
               s2 = snd named;
               dst_path = path_join dst_dir dst_name
           in case probe_audio_codec w src of
                Inl e \<Rightarrow> (Inl e, s2)
              | Inr audio_codec \<Rightarrow>
                  (let cmd = ffmpeg_cmd src audio_codec dst_path;
                       s3 = s2\<lparr>ran := ran s2 @ [cmd]\<rparr>
                   in case subprocess_run w cmd of
                        Inl e \<Rightarrow> (Inl e, s3)
                      | Inr u \<Rightarrow>
                          (Inr dst_path,
                           (print_line (''-> Converted to: '' @ dst_path) s3)\<lparr>written := written s3 @ [dst_path]\<rparr>))))"

section \<open>Dispatcher and tree walker\<close>

definition PHOTO_EXTENSIONS :: "string set" where
  "PHOTO_EXTENSIONS = {''.jpg'', ''.jpeg'', ''.png''}"

definition VIDEO_EXTENSIONS :: "string set" where
  "VIDEO_EXTENSIONS =
     {''.mp4'', ''.mkv'', ''.avi'', ''.mov'', ''.wmv'', ''.flv'', ''.webm'', ''.mpg'', ''.mpeg'',
      ''.m4v'', ''.3gp'', ''.3g2'', ''.ts'', ''.mts'', ''.m2ts'', ''.vob''}"

text \<open>
  The module constant \<^verbatim>\<open>MODE\<close> as the file ships it.  \<open>process_file\<close> takes the mode as an
  argument, so that the three settings the source documents can be told apart.
\<close>

definition MODE :: string where
  "MODE = ''photo''"

definition process_file :: "'ts world \<Rightarrow> string \<Rightarrow> string \<Rightarrow> string \<Rightarrow> state \<Rightarrow> state" where
  "process_file w mode path output_dir s =
     (let ext = str_lower (splitext_ext path)
      in if ext \<in> PHOTO_EXTENSIONS \<and> mode \<in> {''photo'', ''both''} then
           (case copy_photo w path output_dir (print_line (CHR 0x0A # ''Copying photo: '' @ path) s) of
              (Inr dst, s') \<Rightarrow> s'
            | (Inl e, s') \<Rightarrow>
                print_line (''FATAL Error copying photo '' @ path @ '': '' @ exn_str e) s')
         else if ext \<in> VIDEO_EXTENSIONS \<and> mode \<in> {''video'', ''both''} then
           (case convert_video w path output_dir (print_line (CHR 0x0A # ''Processing video: '' @ path) s) of
              (Inr dst, s') \<Rightarrow> s'
            | (Inl e, s') \<Rightarrow>
                if is_CalledProcessError e then
                  print_line (''FATAL Error converting video '' @ path @ '' (FFmpeg failed): '' @ exn_str e) s'
                else
                  print_line (''FATAL Error converting video '' @ path @ '': '' @ exn_str e) s')
         else s)"

definition ensure_dir :: "'ts world \<Rightarrow> string \<Rightarrow> exn + unit" where
  "ensure_dir w path = (if \<not> path_exists w path then makedirs w path else Inr ())"

text \<open>The inner loop of \<^verbatim>\<open>recurse_and_process\<close> over the files of one directory.\<close>

fun process_files :: "'ts world \<Rightarrow> string \<Rightarrow> string \<Rightarrow> string \<Rightarrow> string list \<Rightarrow> state \<Rightarrow> state" where
  "process_files w mode output_dir root [] s = s"
| "process_files w mode output_dir root (file # files) s =
     process_files w mode output_dir root files
       (process_file w mode (path_join root file) output_dir s)"

text \<open>The outer loop over the directories that \<^verbatim>\<open>os.walk\<close> yields.\<close>

fun process_dirs :: "'ts world \<Rightarrow> string \<Rightarrow> string \<Rightarrow> (string \<times> string list) list \<Rightarrow> state \<Rightarrow> state" where
  "process_dirs w mode output_dir [] s = s"
| "process_dirs w mode output_dir ((root, files) # dirs) s =
     process_dirs w mode output_dir dirs (process_files w mode output_dir root files s)"

definition recurse_and_process :: "'ts world \<Rightarrow> string \<Rightarrow> string \<Rightarrow> string \<Rightarrow> state \<Rightarrow> exn + state" where
  "recurse_and_process w mode input_dir output_dir s =
     (case ensure_dir w output_dir of
        Inl e \<Rightarrow> Inl e
      | Inr u \<Rightarrow>
          Inr (print_line (CHR 0x0A # ''Processing complete.'')
                 (process_dirs w mode output_dir (os_walk w input_dir)
                    (print_line (''Starting processing from '' @ input_dir @ ''...'') s))))"

section \<open>Notions used to state the properties\<close>

text \<open>Reading a string of decimal digits back as a number.\<close>

definition is_digit :: "char \<Rightarrow> bool" where
  "is_digit c \<longleftrightarrow> 48 \<le> (of_char c :: nat) \<and> (of_char c :: nat) \<le> 57"

definition digit_val :: "char \<Rightarrow> nat" where
  "digit_val c = of_char c - 48"

definition dec_val :: "string \<Rightarrow> nat" where
  "dec_val s = foldl (\<lambda>a c. 10 * a + digit_val c) 0 s"

text \<open>The date component of a datetime.\<close>

definition date_of :: "datetime \<Rightarrow> nat \<times> nat \<times> nat" where
  "date_of dt = (year dt, month dt, day dt)"

text \<open>
  An extension as the callers of the namer pass it: empty, or beginning with a character
  that is not a digit (\<^verbatim>\<open>os.path.splitext\<close> gives an empty extension or one that begins
  with a dot; the converter passes \<^verbatim>\<open>".mp4"\<close>).
\<close>

definition ext_begins_ok :: "string \<Rightarrow> bool" where
  "ext_begins_ok ext \<longleftrightarrow> (case ext of [] \<Rightarrow> True | c # cs \<Rightarrow> \<not> is_digit c)"

text \<open>A run of the namer: the calls of one batch in order, each on the table the last left.\<close>

fun namer_calls :: "(datetime \<times> string) list \<Rightarrow> state \<Rightarrow> string list \<times> state" where
  "namer_calls [] s = ([], s)"
| "namer_calls ((dt, ext) # cs) s =
     (let r = generate_name_with_counter dt ext s;
          rest = namer_calls cs (snd r)
      in (fst r # fst rest, snd rest))"

text \<open>Call number \<open>i\<close> of a run (from 0) is the \<open>k\<close>-th call for its date: this is \<open>k\<close>.\<close>

definition nth_call_for_date :: "(datetime \<times> string) list \<Rightarrow> nat \<Rightarrow> nat" where
  "nth_call_for_date cs i =
     length (filter (\<lambda>c. date_of (fst c) = date_of (fst (cs ! i))) (take (Suc i) cs))"

definition key_count :: "(datetime \<times> string) list \<Rightarrow> nat \<Rightarrow> nat" where
  "key_count cs i =
     length (filter (\<lambda>c. strftime_Ymd (fst c) = strftime_Ymd (fst (cs ! i))) (take (Suc i) cs))"

text \<open>A naive datetime at eight in the morning of the given day.\<close>

definition morning :: "nat \<Rightarrow> nat \<Rightarrow> nat \<Rightarrow> datetime" where
  "morning y m d =
     \<lparr>year = y, month = m, day = d, hour = 8, minute = 0, second = 0, microsecond = 0, utcoffset = None\<rparr>"

section \<open>The specification's reading of the timestamp\<close>

text \<open>Following the words of the specification: a trailing \<open>Z\<close> is replaced by \<open>+00:00\<close>.\<close>

definition replace_trailing_Z :: "string \<Rightarrow> string" where
  "replace_trailing_Z s = (if s \<noteq> [] \<and> last s = CHR ''Z'' then butlast s @ ''+00:00'' else s)"

section \<open>Worlds for the examples\<close>

text \<open>10:30 on 14 December 2023, at offset \<open>+00:00\<close>.\<close>

definition utc_example :: datetime where
  "utc_example = \<lparr>year = 2023, month = 12, day = 14, hour = 10, minute = 30,
                   second = 0, microsecond = 0, utcoffset = Some 0\<rparr>"

text \<open>
  A world for the examples.  Two photos: \<open>/in/a.jpg\<close>, modified on 1 January 2022, with
  no DateTime tag; \<open>/in/b.jpg\<close>, modified on 3 March 2023, with the tag
  \<open>2021:06:15 08:00:00\<close>.  One video, \<open>/in/c.mov\<close>, whose creation time is
  \<open>2023-12-14T10:30:00.000000Z\<close> and whose audio is aac.  Every copy and every
  conversion succeeds.
\<close>

definition example_world :: "nat world" where
  "example_world =
     \<lparr>getmtime = (\<lambda>p. Inr (if p = ''/in/a.jpg'' then 1 else 2)),
      fromtimestamp = (\<lambda>ts. Inr (if ts = 1 then morning 2022 1 1 else morning 2023 3 3)),
      piexif_load = (\<lambda>p. if p = ''/in/b.jpg''
                          then Inr [''0th'' \<mapsto> [ImageIFD_DateTime \<mapsto> Bytes ''2021:06:15 08:00:00'']]
                          else Inr [''0th'' \<mapsto> Map.empty]),
      decode = (\<lambda>b. Inr b),
      strptime = (\<lambda>txt fmt. if txt = ''2021:06:15 08:00:00'' \<and> fmt = ''%Y:%m:%d %H:%M:%S''
                             then Inr (morning 2021 6 15)
                             else Inl (Exn ValueError ''time data does not match format'')),
      fromisoformat = (\<lambda>txt. if txt = ''2023-12-14T10:30:00.000000+00:00''
                              then Inr utc_example
                              else Inl (Exn ValueError ''Invalid isoformat string'')),
      check_output = (\<lambda>cmd. if cmd = creation_time_cmd ''/in/c.mov''
                             then Inr (''2023-12-14T10:30:00.000000Z'' @ [CHR 0x0A])
                             else if cmd = audio_codec_cmd ''/in/c.mov''
                             then Inr (''aac'' @ [CHR 0x0A])
                             else Inr []),
      subprocess_run = (\<lambda>cmd. Inr ()),
      copy2 = (\<lambda>src dst. Inr ()),
      path_exists = (\<lambda>p. True),
      makedirs = (\<lambda>p. Inr ()),
      os_walk = (\<lambda>d. [(''/in'', [''a.jpg'', ''b.jpg'', ''notes.txt''])])\<rparr>"

text \<open>The same world with a dangling symbolic link: its modification time cannot be read.\<close>

definition no_mtime_world :: "nat world" where
  "no_mtime_world =
     example_world\<lparr>getmtime := (\<lambda>p. Inl (Exn OSError ''[Errno 2] No such file or directory''))\<rparr>"

text \<open>
  The same world with a metadata reader that rejects every file, as \<^verbatim>\<open>piexif.load\<close> rejects
  a PNG image.
\<close>

definition bad_exif_world :: "nat world" where
  "bad_exif_world =
     example_world\<lparr>piexif_load := (\<lambda>p. Inl (Exn ValueError ''Given file is neither JPEG nor TIFF.''))\<rparr>"

text \<open>
  A world where \<open>/in/a.jpg\<close> and \<open>/in/e.jpg\<close> were both modified on 1 January 2022, and
  the copy of \<open>/in/a.jpg\<close> fails while every other copy succeeds.
\<close>

definition flaky_world :: "nat world" where
  "flaky_world =
     example_world
       \<lparr>getmtime := (\<lambda>p. Inr 1),
        copy2 := (\<lambda>src dst. if src = ''/in/a.jpg''
                             then Inl (Exn OSError ''[Errno 28] No space left on device'')
                             else Inr ())\<rparr>"

text \<open>A state whose table holds the count \<open>n\<close> for 1 January 2024 and nothing else.\<close>

definition table_at :: "int \<Rightarrow> state" where
  "table_at n = init_state\<lparr>date_counters := [''2024_01_01'' \<mapsto> n]\<rparr>"

section \<open>Properties\<close>

lemma digit_val_digit_char: "d < 10 \<Longrightarrow> digit_val (digit_char d) = d"
  by (simp add: digit_val_def digit_char_def)

lemma is_digit_digit_char: "d < 10 \<Longrightarrow> is_digit (digit_char d)"
  by (simp add: is_digit_def digit_char_def)

lemma dec_val_snoc: "dec_val (s @ [c]) = 10 * dec_val s + digit_val c"
  by (simp add: dec_val_def)

lemma dec_val_digits: "dec_val (digits n) = n"
proof (induction n rule: digits.induct)
  case (1 n)
  show ?case
  proof (cases "n < 10")
    case True
    then show ?thesis by (simp add: digits.simps [of n] dec_val_def digit_val_digit_char)
  next
    case False
    with 1 show ?thesis
      by (simp add: digits.simps [of n] dec_val_snoc digit_val_digit_char)
  qed
qed

lemma digits_all_digit: "\<forall>c \<in> set (digits n). is_digit c"
proof (induction n rule: digits.induct)
  case (1 n)
  show ?case
  proof (cases "n < 10")
    case True
    then show ?thesis by (simp add: digits.simps [of n] is_digit_digit_char)
  next
    case False
    with 1 show ?thesis
      by (simp add: digits.simps [of n] is_digit_digit_char)
  qed
qed

lemma digits_not_Nil: "digits n \<noteq> []"
  by (subst digits.simps) simp

lemma length_digits_le: "n < 10 ^ k \<Longrightarrow> 0 < k \<Longrightarrow> length (digits n) \<le> k"
proof (induction n arbitrary: k rule: digits.induct)
  case (1 n)
  show ?case
  proof (cases "n < 10")
    case True
    with 1(3) show ?thesis by (simp add: digits.simps [of n])
  next
    case False
    then obtain k' where k: "k = Suc k'" using 1(3) by (cases k) auto
    from False 1(2) k have "0 < k'" by (cases k') auto
    moreover from 1(2) k have "n div 10 < 10 ^ k'" by (simp add: less_mult_imp_div_less mult.commute)
    ultimately have "length (digits (n div 10)) \<le> k'" using 1(1) False by blast
    with False k show ?thesis by (simp add: digits.simps [of n])
  qed
qed

lemma length_digits_ge: "10 ^ k \<le> n \<Longrightarrow> k < length (digits n)"
proof (induction n arbitrary: k rule: digits.induct)
  case (1 n)
  show ?case
  proof (cases k)
    case 0
    then show ?thesis using digits_not_Nil [of n] by simp
  next
    case (Suc k')
    with 1(2) have ge: "10 * 10 ^ k' \<le> n" by simp
    then have "\<not> n < 10" by (metis One_nat_def leD less_le_trans mult.right_neutral mult_le_mono2 one_le_numeral one_le_power)
    moreover from ge have "10 ^ k' \<le> n div 10" by simp
    ultimately show ?thesis using 1(1) Suc by (simp add: digits.simps [of n])
  qed
qed

lemma dec_val_replicate0: "dec_val (replicate k CHR ''0'' @ s) = dec_val s"
  by (induction k) (simp_all add: dec_val_def digit_val_def)

lemma dec_val_zfill: "dec_val (zfill w (digits n)) = n"
  by (simp add: zfill_def dec_val_replicate0 dec_val_digits)

lemma zfill_all_digit: "\<forall>c \<in> set (zfill w (digits n)). is_digit c"
  using digits_all_digit [of n] by (auto simp: zfill_def is_digit_def)

lemma length_zfill: "length s \<le> w \<Longrightarrow> length (zfill w s) = w"
  by (simp add: zfill_def)

lemma days_in_month_le: "days_in_month y m \<le> 31"
  by (simp add: days_in_month_def)

lemma valid_bounds: "valid_datetime dt \<Longrightarrow> year dt < 10 ^ 4 \<and> month dt < 10 ^ 2 \<and> day dt < 10 ^ 2"
  using days_in_month_le [of "year dt" "month dt"] by (simp add: valid_datetime_def)

lemma length_zfill_digits: "n < 10 ^ k \<Longrightarrow> 0 < k \<Longrightarrow> length (zfill k (digits n)) = k"
  by (simp add: length_zfill length_digits_le)

lemma length_strftime: "valid_datetime dt \<Longrightarrow> length (strftime_Ymd dt) = 10"
  using valid_bounds [of dt] by (simp add: strftime_Ymd_def length_zfill_digits)

lemma strftime_parts:
  assumes "valid_datetime dt"
  shows "take 4 (strftime_Ymd dt) = zfill 4 (digits (year dt))"
    and "take 2 (drop 5 (strftime_Ymd dt)) = zfill 2 (digits (month dt))"
    and "drop 8 (strftime_Ymd dt) = zfill 2 (digits (day dt))"
  using valid_bounds [OF assms] by (simp_all add: strftime_Ymd_def length_zfill_digits)

lemma strftime_inj:
  assumes "valid_datetime a" "valid_datetime b" "strftime_Ymd a = strftime_Ymd b"
  shows "date_of a = date_of b"
proof -
  have "zfill 4 (digits (year a)) = zfill 4 (digits (year b))"
    using strftime_parts(1) [OF assms(1)] strftime_parts(1) [OF assms(2)] assms(3) by simp
  then have y: "year a = year b" by (metis dec_val_zfill)
  have "zfill 2 (digits (month a)) = zfill 2 (digits (month b))"
    using strftime_parts(2) [OF assms(1)] strftime_parts(2) [OF assms(2)] assms(3) by simp
  then have m: "month a = month b" by (metis dec_val_zfill)
  have "zfill 2 (digits (day a)) = zfill 2 (digits (day b))"
    using strftime_parts(3) [OF assms(1)] strftime_parts(3) [OF assms(2)] assms(3) by simp
  then have d: "day a = day b" by (metis dec_val_zfill)
  from y m d show ?thesis by (simp add: date_of_def)
qed

lemma strftime_cong: "date_of a = date_of b \<Longrightarrow> strftime_Ymd a = strftime_Ymd b"
  by (simp add: date_of_def strftime_Ymd_def)

lemma fmt_03d_nonneg: "0 \<le> n \<Longrightarrow> fmt_03d n = zfill 3 (digits (nat n))"
  by (simp add: fmt_03d_def)

lemma fmt_03d_inj: "0 \<le> a \<Longrightarrow> 0 \<le> b \<Longrightarrow> fmt_03d a = fmt_03d b \<Longrightarrow> a = b"
  by (metis fmt_03d_nonneg dec_val_zfill nat_eq_iff2 int_nat_eq)

lemma takeWhile_digits_ext:
  assumes "\<forall>c \<in> set ds. is_digit c" "ext_begins_ok ext"
  shows "takeWhile is_digit (ds @ ext) = ds"
proof (cases ext)
  case Nil
  with assms(1) show ?thesis by simp
next
  case (Cons c cs)
  with assms(2) have "\<not> is_digit c" by (simp add: ext_begins_ok_def)
  with assms(1) Cons show ?thesis by (simp add: takeWhile_append2)
qed

lemma name_inj:
  assumes "length k1 = 10" "length k2 = 10" "0 \<le> c1" "0 \<le> c2"
    "ext_begins_ok e1" "ext_begins_ok e2"
    "k1 @ ''_'' @ fmt_03d c1 @ e1 = k2 @ ''_'' @ fmt_03d c2 @ e2"
  shows "k1 = k2 \<and> c1 = c2 \<and> e1 = e2"
proof -
  from assms(1,2,7) have k: "k1 = k2" by (metis append_eq_append_conv)
  with assms(7) have eq: "fmt_03d c1 @ e1 = fmt_03d c2 @ e2" by simp
  have d1: "\<forall>c \<in> set (fmt_03d c1). is_digit c" using assms(3) zfill_all_digit by (simp add: fmt_03d_nonneg)
  have d2: "\<forall>c \<in> set (fmt_03d c2). is_digit c" using assms(4) zfill_all_digit by (simp add: fmt_03d_nonneg)
  have "fmt_03d c1 = fmt_03d c2"
    using takeWhile_digits_ext [OF d1 assms(5)] takeWhile_digits_ext [OF d2 assms(6)] eq by simp
  with eq assms(3,4) k show ?thesis by (auto dest: fmt_03d_inj)
qed

lemma gen_name_eq:
  "generate_name_with_counter dt ext s =
     (strftime_Ymd dt @ ''_'' @ fmt_03d (counter_of (date_counters s) (strftime_Ymd dt) + 1) @ ext,
      s\<lparr>date_counters := (date_counters s)(strftime_Ymd dt \<mapsto> counter_of (date_counters s) (strftime_Ymd dt) + 1)\<rparr>)"
  by (simp add: generate_name_with_counter_def Let_def counter_of_def)

lemma length_namer_calls: "length (fst (namer_calls cs s)) = length cs"
  by (induction cs arbitrary: s) (auto simp: Let_def)

lemma key_count_0: "key_count (c # cs) 0 = 1"
  by (simp add: key_count_def)

lemma key_count_Suc:
  "key_count (c # cs) (Suc i) =
     (if strftime_Ymd (fst c) = strftime_Ymd (fst (cs ! i)) then 1 else 0) + key_count cs i"
  by (simp add: key_count_def)

lemma namer_calls_nth:
  "i < length cs \<Longrightarrow>
   fst (namer_calls cs s) ! i =
     strftime_Ymd (fst (cs ! i)) @ ''_'' @
     fmt_03d (counter_of (date_counters s) (strftime_Ymd (fst (cs ! i))) + int (key_count cs i)) @
     snd (cs ! i)"
proof (induction cs arbitrary: s i)
  case Nil
  then show ?case by simp
next
  case (Cons c cs)
  obtain dt ext where c: "c = (dt, ext)" by (cases c)
  let ?s' = "snd (generate_name_with_counter dt ext s)"
  show ?case
  proof (cases i)
    case 0
    then show ?thesis by (simp add: c gen_name_eq key_count_0 Let_def)
  next
    case (Suc j)
    with Cons.prems have j: "j < length cs" by simp
    have step: "fst (namer_calls (c # cs) s) ! i = fst (namer_calls cs ?s') ! j"
      by (simp add: c Suc Let_def)
    have cnt: "counter_of (date_counters ?s') k =
        counter_of (date_counters s) k + (if strftime_Ymd dt = k then 1 else 0)" for k
      by (simp add: gen_name_eq counter_of_def)
    show ?thesis
      unfolding step Cons.IH [OF j] cnt
      by (simp add: Suc c key_count_Suc add.assoc)
  qed
qed

lemma key_count_date:
  assumes "\<forall>c \<in> set cs. valid_datetime (fst c)" "i < length cs"
  shows "key_count cs i = nth_call_for_date cs i"
proof -
  have v: "valid_datetime (fst (cs ! i))" using assms by simp
  have "filter (\<lambda>c. strftime_Ymd (fst c) = strftime_Ymd (fst (cs ! i))) (take (Suc i) cs) =
        filter (\<lambda>c. date_of (fst c) = date_of (fst (cs ! i))) (take (Suc i) cs)"
  proof (rule filter_cong [OF refl])
    fix c assume "c \<in> set (take (Suc i) cs)"
    then have "valid_datetime (fst c)" using assms(1) by (auto dest: in_set_takeD)
    with v show "(strftime_Ymd (fst c) = strftime_Ymd (fst (cs ! i))) =
        (date_of (fst c) = date_of (fst (cs ! i)))"
      by (auto intro: strftime_inj strftime_cong)
  qed
  then show ?thesis by (simp add: key_count_def nth_call_for_date_def)
qed

lemma nth_call_pos: "i < length cs \<Longrightarrow> 0 < nth_call_for_date cs i"
  by (simp add: nth_call_for_date_def take_Suc_conv_app_nth)

lemma nth_call_mono:
  assumes "i < j" "j < length cs" "date_of (fst (cs ! i)) = date_of (fst (cs ! j))"
  shows "nth_call_for_date cs i < nth_call_for_date cs j"
proof -
  let ?P = "\<lambda>c. date_of (fst c) = date_of (fst (cs ! j))"
  have "take (Suc i) (take j cs) = take (Suc i) cs"
    using assms(1) by (simp add: min_def)
  then have tk: "take j cs = take (Suc i) cs @ drop (Suc i) (take j cs)"
    by (metis append_take_drop_id)
  have "nth_call_for_date cs j = length (filter ?P (take j cs)) + 1"
    using assms(2) by (simp add: nth_call_for_date_def take_Suc_conv_app_nth)
  also have "length (filter ?P (take j cs)) =
      length (filter ?P (take (Suc i) cs)) + length (filter ?P (drop (Suc i) (take j cs)))"
    by (subst tk) simp
  finally have "nth_call_for_date cs j > length (filter ?P (take (Suc i) cs))" by simp
  moreover have "nth_call_for_date cs i = length (filter ?P (take (Suc i) cs))"
    unfolding nth_call_for_date_def assms(3) ..
  ultimately show ?thesis by simp
qed

lemma namer_calls_nth_init:
  assumes "\<forall>c \<in> set cs. valid_datetime (fst c)" "i < length cs"
  shows "fst (namer_calls cs init_state) ! i =
     strftime_Ymd (fst (cs ! i)) @ ''_'' @ fmt_03d (int (nth_call_for_date cs i)) @ snd (cs ! i)"
  using namer_calls_nth [OF assms(2), of init_state] key_count_date [OF assms]
  by (simp add: init_state_def counter_of_def)

lemma pairs_neq:
  assumes "i < j" "j < length cs"
  shows "(date_of (fst (cs ! i)), nth_call_for_date cs i) \<noteq> (date_of (fst (cs ! j)), nth_call_for_date cs j)"
  using nth_call_mono [OF assms] by auto

lemma distinct_pairs:
  "distinct (map (\<lambda>i. (date_of (fst (cs ! i)), nth_call_for_date cs i)) [0..<length cs])"
proof -
  have "i \<noteq> j \<Longrightarrow> i < length cs \<Longrightarrow> j < length cs \<Longrightarrow>
      (date_of (fst (cs ! i)), nth_call_for_date cs i) \<noteq> (date_of (fst (cs ! j)), nth_call_for_date cs j)" for i j
    using pairs_neq [of i j cs] pairs_neq [of j i cs] by (cases "i < j") (auto simp del: prod.inject)
  then show ?thesis by (simp add: distinct_conv_nth del: prod.inject)
qed

lemma names_neq:
  assumes v: "\<forall>c \<in> set cs. valid_datetime (fst c) \<and> ext_begins_ok (snd c)"
    and ij: "i < j" "j < length cs"
  shows "fst (namer_calls cs init_state) ! i \<noteq> fst (namer_calls cs init_state) ! j"
proof
  assume eq: "fst (namer_calls cs init_state) ! i = fst (namer_calls cs init_state) ! j"
  from ij have i: "i < length cs" by simp
  from v have v1: "\<forall>c \<in> set cs. valid_datetime (fst c)" by simp
  have vi: "valid_datetime (fst (cs ! i))" "ext_begins_ok (snd (cs ! i))" using v i by simp_all
  have vj: "valid_datetime (fst (cs ! j))" "ext_begins_ok (snd (cs ! j))" using v ij(2) by simp_all
  from eq have "strftime_Ymd (fst (cs ! i)) @ ''_'' @ fmt_03d (int (nth_call_for_date cs i)) @ snd (cs ! i) =
      strftime_Ymd (fst (cs ! j)) @ ''_'' @ fmt_03d (int (nth_call_for_date cs j)) @ snd (cs ! j)"
    by (simp only: namer_calls_nth_init [OF v1 i] namer_calls_nth_init [OF v1 ij(2)])
  from name_inj [OF length_strftime [OF vi(1)] length_strftime [OF vj(1)] _ _ vi(2) vj(2) this]
  have "strftime_Ymd (fst (cs ! i)) = strftime_Ymd (fst (cs ! j))"
    and "nth_call_for_date cs i = nth_call_for_date cs j" by simp_all
  with strftime_inj [OF vi(1) vj(1)] nth_call_mono [OF ij] show False by simp
qed

lemma distinct_names:
  assumes v: "\<forall>c \<in> set cs. valid_datetime (fst c) \<and> ext_begins_ok (snd c)"
  shows "distinct (fst (namer_calls cs init_state))"
proof -
  have "i \<noteq> j \<Longrightarrow> i < length cs \<Longrightarrow> j < length cs \<Longrightarrow>
      fst (namer_calls cs init_state) ! i \<noteq> fst (namer_calls cs init_state) ! j" for i j
    using names_neq [OF v, of i j] names_neq [OF v, of j i] by (cases "i < j") auto
  then show ?thesis by (simp add: distinct_conv_nth length_namer_calls)
qed

text \<open>
  C1.  Every call of the namer writes the old count plus one under the date string of its
  datetime (an absent entry counts as 0 and becomes 1), changes nothing else, and returns
  the date string, an underscore, the new count in the format \<^verbatim>\<open>03d\<close> and the extension.
  In a run that starts from the empty table, with datetimes Python can build and
  extensions as the callers pass them, call \<open>i\<close> is named with the number of calls so
  far for its date, however calls for other dates are interleaved; no two calls have the
  same date and counter; and the names returned are pairwise different.
\<close>

theorem namer_counters_and_names:
  assumes v: "\<forall>c \<in> set cs. valid_datetime (fst c) \<and> ext_begins_ok (snd c)"
  shows "(\<forall>dt ext s.
            snd (generate_name_with_counter dt ext s) =
              s\<lparr>date_counters := (date_counters s)
                   (strftime_Ymd dt \<mapsto> counter_of (date_counters s) (strftime_Ymd dt) + 1)\<rparr> \<and>
            fst (generate_name_with_counter dt ext s) =
              strftime_Ymd dt @ ''_'' @
              fmt_03d (counter_of (date_counters (snd (generate_name_with_counter dt ext s))) (strftime_Ymd dt)) @ ext) \<and>
         length (fst (namer_calls cs init_state)) = length cs \<and>
         (\<forall>i < length cs.
            fst (namer_calls cs init_state) ! i =
              strftime_Ymd (fst (cs ! i)) @ ''_'' @ fmt_03d (int (nth_call_for_date cs i)) @ snd (cs ! i)) \<and>
         distinct (map (\<lambda>i. (date_of (fst (cs ! i)), nth_call_for_date cs i)) [0..<length cs]) \<and>
         distinct (fst (namer_calls cs init_state))"
proof -
  have a: "\<forall>dt ext s.
            snd (generate_name_with_counter dt ext s) =
              s\<lparr>date_counters := (date_counters s)
                   (strftime_Ymd dt \<mapsto> counter_of (date_counters s) (strftime_Ymd dt) + 1)\<rparr> \<and>
            fst (generate_name_with_counter dt ext s) =
              strftime_Ymd dt @ ''_'' @
              fmt_03d (counter_of (date_counters (snd (generate_name_with_counter dt ext s))) (strftime_Ymd dt)) @ ext"
    by (simp add: gen_name_eq counter_of_def)
  from v have v1: "\<forall>c \<in> set cs. valid_datetime (fst c)" by simp
  have c: "\<forall>i < length cs.
            fst (namer_calls cs init_state) ! i =
              strftime_Ymd (fst (cs ! i)) @ ''_'' @ fmt_03d (int (nth_call_for_date cs i)) @ snd (cs ! i)"
    using namer_calls_nth_init [OF v1] by blast
  from a length_namer_calls c distinct_pairs distinct_names [OF v] show ?thesis by blast
qed

theorem namer_counters_and_names_witness:
  "valid_datetime (morning 2021 6 15) \<and> valid_datetime (morning 2022 1 1) \<and>
   ext_begins_ok ''.jpg'' \<and> ext_begins_ok ''.mp4'' \<and>
   (2::nat) < length [(morning 2021 6 15, ''.jpg''), (morning 2022 1 1, ''.jpg''), (morning 2021 6 15, ''.mp4'')] \<and>
   fst (namer_calls [(morning 2021 6 15, ''.jpg''), (morning 2022 1 1, ''.jpg''), (morning 2021 6 15, ''.mp4'')] init_state) ! 2 =
     ''2021_06_15_002.mp4'' \<and>
   distinct (fst (namer_calls [(morning 2021 6 15, ''.jpg''), (morning 2022 1 1, ''.jpg''), (morning 2021 6 15, ''.mp4'')] init_state))"
proof -
  let ?cs = "[(morning 2021 6 15, ''.jpg''), (morning 2022 1 1, ''.jpg''), (morning 2021 6 15, ''.mp4'')]"
  have h: "\<forall>c \<in> set ?cs. valid_datetime (fst c) \<and> ext_begins_ok (snd c)"
    by (simp add: valid_datetime_def days_in_month_def morning_def ext_begins_ok_def is_digit_def)
  have n: "nth_call_for_date ?cs 2 = 2"
    by (simp add: nth_call_for_date_def date_of_def morning_def)
  have d: "digits 2021 = ''2021''" "digits 6 = ''6''" "digits 15 = ''15''" "digits 2 = ''2''"
    by code_simp+
  have r: "strftime_Ymd (morning 2021 6 15) @ ''_'' @ fmt_03d (int 2) @ ''.mp4'' = ''2021_06_15_002.mp4''"
    by code_simp
  have l: "(2::nat) < length ?cs" by simp
  have e: "?cs ! 2 = (morning 2021 6 15, ''.mp4'')" by simp
  note t = namer_counters_and_names [OF h]
  from t have "\<forall>i < length ?cs. fst (namer_calls ?cs init_state) ! i =
       strftime_Ymd (fst (?cs ! i)) @ ''_'' @ fmt_03d (int (nth_call_for_date ?cs i)) @ snd (?cs ! i)"
    by blast
  with l have "fst (namer_calls ?cs init_state) ! 2 =
       strftime_Ymd (fst (?cs ! 2)) @ ''_'' @ fmt_03d (int (nth_call_for_date ?cs 2)) @ snd (?cs ! 2)"
    by blast
  then have x: "fst (namer_calls ?cs init_state) ! 2 = ''2021_06_15_002.mp4''"
    unfolding e n fst_conv snd_conv r .
  from t have y: "distinct (fst (namer_calls ?cs init_state))" by blast
  from h have "valid_datetime (morning 2021 6 15) \<and> valid_datetime (morning 2022 1 1) \<and>
      ext_begins_ok ''.jpg'' \<and> ext_begins_ok ''.mp4''" by simp
  with l x y show ?thesis by blast
qed

lemma photo_result_cases:
  assumes "fallback_dt w path = Inr fb"
  shows "photo_try w path = Inr (Some dt) \<Longrightarrow> get_photo_datetime w path = (Inr dt, [])"
    and "photo_try w path = Inr None \<Longrightarrow> get_photo_datetime w path = (Inr fb, [])"
    and "photo_try w path = Inl e \<Longrightarrow> get_photo_datetime w path = (Inl Invalidbox_lookup_error, [])"
  using assms by (simp_all add: get_photo_datetime_def)

lemma video_raises_iff: "fst (get_video_datetime w path) = Inl e \<longleftrightarrow> fallback_dt w path = Inl e"
  by (auto simp: get_video_datetime_def split: sum.splits option.splits prod.splits)

lemma video_result_cases:
  assumes "fallback_dt w path = Inr fb"
  shows "video_try w path = (Inr (Some dt), out) \<Longrightarrow> get_video_datetime w path = (Inr dt, out)"
    and "video_try w path = (Inr None, out) \<Longrightarrow> get_video_datetime w path = (Inr fb, out)"
    and "video_try w path = (Inl e, out) \<Longrightarrow> is_CalledProcessError e \<Longrightarrow>
           get_video_datetime w path = (Inr fb, out)"
    and "video_try w path = (Inl e, out) \<Longrightarrow> \<not> is_CalledProcessError e \<Longrightarrow>
           get_video_datetime w path =
             (Inr fb, out @ [''Warning: Error during ffprobe for video '' @ path @ '': '' @
                             exn_str e @ ''. Falling back to mtime.''])"
  using assms by (simp_all add: get_video_datetime_def)

lemma video_returns:
  assumes "fallback_dt w path = Inr fb"
  shows "\<exists>dt. fst (get_video_datetime w path) = Inr dt \<and> (dt = fb \<or> fst (video_try w path) = Inr (Some dt))"
  using assms by (auto simp: get_video_datetime_def split: sum.splits option.splits prod.splits)

text \<open>
  The fallback is computed before the \<^verbatim>\<open>try\<close>: for a file whose modification time
  cannot be read, both resolvers raise the \<^verbatim>\<open>OSError\<close> of \<^verbatim>\<open>os.path.getmtime\<close>.
\<close>

lemma unreadable_mtime_raises:
  "get_photo_datetime no_mtime_world ''/in/b.jpg'' =
     (Inl (Exn OSError ''[Errno 2] No such file or directory''), []) \<and>
   get_video_datetime no_mtime_world ''/in/c.mov'' =
     (Inl (Exn OSError ''[Errno 2] No such file or directory''), [])"
  by (simp add: get_photo_datetime_def get_video_datetime_def fallback_dt_def no_mtime_world_def
      example_world_def)

lemma photo_try_load_fails: "piexif_load w path = Inl e \<Longrightarrow> photo_try w path = Inl e"
  by (simp add: photo_try_def)

lemma photo_try_decode_fails:
  "piexif_load w path = Inr d \<Longrightarrow> d ''0th'' = Some ifd \<Longrightarrow> ifd ImageIFD_DateTime = Some v \<Longrightarrow>
   truthy v \<Longrightarrow> value_decode w v = Inl e \<Longrightarrow> photo_try w path = Inl e"
  by (simp add: photo_try_def)

lemma photo_try_parse_fails:
  "piexif_load w path = Inr d \<Longrightarrow> d ''0th'' = Some ifd \<Longrightarrow> ifd ImageIFD_DateTime = Some v \<Longrightarrow>
   truthy v \<Longrightarrow> value_decode w v = Inr txt \<Longrightarrow> strptime w txt ''%Y:%m:%d %H:%M:%S'' = Inl e \<Longrightarrow>
   photo_try w path = Inl e"
  by (simp add: photo_try_def)

lemma photo_try_absent:
  "piexif_load w path = Inr d \<Longrightarrow> d ''0th'' = Some ifd \<Longrightarrow> ifd ImageIFD_DateTime = None \<Longrightarrow>
   photo_try w path = Inr None"
  by (simp add: photo_try_def)

lemma photo_try_falsy:
  "piexif_load w path = Inr d \<Longrightarrow> d ''0th'' = Some ifd \<Longrightarrow> ifd ImageIFD_DateTime = Some v \<Longrightarrow>
   \<not> truthy v \<Longrightarrow> photo_try w path = Inr None"
  by (simp add: photo_try_def)

text \<open>
  C2.  The code does not do what the claim says.  When reading the metadata of a photo
  raises (the reader rejects the file, the value cannot be decoded, or the text does not
  parse), the exception never reaches a handler body: the resolver raises the
  \<^verbatim>\<open>AttributeError\<close> of the lookup \<^verbatim>\<open>piexif.Invalidbox\<close> to its caller and prints nothing,
  where the claim has every error branch end in the return of the fallback.
\<close>

theorem photo_error_escapes:
  assumes "fallback_dt w path = Inr fb"
    and "piexif_load w path = Inl e \<or>
         (\<exists>d ifd v. piexif_load w path = Inr d \<and> d ''0th'' = Some ifd \<and>
            ifd ImageIFD_DateTime = Some v \<and> truthy v \<and>
            (value_decode w v = Inl e \<or>
             (\<exists>txt. value_decode w v = Inr txt \<and> strptime w txt ''%Y:%m:%d %H:%M:%S'' = Inl e)))"
  shows "get_photo_datetime w path = (Inl Invalidbox_lookup_error, [])"
proof -
  from assms(2) have "photo_try w path = Inl e"
    using photo_try_load_fails photo_try_decode_fails photo_try_parse_fails by blast
  then show ?thesis by (rule photo_result_cases(3) [OF assms(1)])
qed

lemma png_fallback: "fallback_dt bad_exif_world ''/in/p.png'' = Inr (morning 2023 3 3)"
  by (simp add: fallback_dt_def bad_exif_world_def example_world_def)

lemma png_load:
  "piexif_load bad_exif_world ''/in/p.png'' = Inl (Exn ValueError ''Given file is neither JPEG nor TIFF.'')"
  by (simp add: bad_exif_world_def)

theorem photo_error_escapes_witness:
  "fallback_dt bad_exif_world ''/in/p.png'' = Inr (morning 2023 3 3) \<and>
   piexif_load bad_exif_world ''/in/p.png'' = Inl (Exn ValueError ''Given file is neither JPEG nor TIFF.'') \<and>
   get_photo_datetime bad_exif_world ''/in/p.png'' =
     (Inl (Exn AttributeError
             (''module '' @ [CHR 0x27] @ ''piexif'' @ [CHR 0x27] @ '' has no attribute '' @
              [CHR 0x27] @ ''Invalidbox'' @ [CHR 0x27])), [])"
proof -
  have "piexif_load bad_exif_world ''/in/p.png'' = Inl (Exn ValueError ''Given file is neither JPEG nor TIFF.'') \<or>
         (\<exists>d ifd v. piexif_load bad_exif_world ''/in/p.png'' = Inr d \<and> d ''0th'' = Some ifd \<and>
            ifd ImageIFD_DateTime = Some v \<and> truthy v \<and>
            (value_decode bad_exif_world v = Inl (Exn ValueError ''Given file is neither JPEG nor TIFF.'') \<or>
             (\<exists>txt. value_decode bad_exif_world v = Inr txt \<and>
                strptime bad_exif_world txt ''%Y:%m:%d %H:%M:%S'' =
                  Inl (Exn ValueError ''Given file is neither JPEG nor TIFF.''))))"
    using png_load by blast
  from photo_error_escapes [OF png_fallback this] png_fallback png_load
  show ?thesis unfolding Invalidbox_lookup_error_def by blast
qed

text \<open>
  C3, as stated, fails: a photo without a DateTime tag resolves to its modification time
  and nothing is printed, where the claim wants exactly one warning.
\<close>

theorem absent_exif_logs_nothing:
  "piexif_load example_world ''/in/a.jpg'' = Inr [''0th'' \<mapsto> Map.empty] \<and>
   get_photo_datetime example_world ''/in/a.jpg'' = (Inr (morning 2022 1 1), [])"
  by (simp add: get_photo_datetime_def fallback_dt_def photo_try_def example_world_def)

text \<open>
  C3, amended.  For every photo with modification time \<open>fb\<close> whose metadata is read without
  an exception and whose DateTime tag is absent or holds an empty value, the resolver
  returns \<open>fb\<close> and prints nothing.
\<close>

theorem photo_absent_tag_silent:
  assumes fb: "fallback_dt w path = Inr fb"
    and "piexif_load w path = Inr d" and "d ''0th'' = Some ifd"
    and "ifd ImageIFD_DateTime = None \<or> (\<exists>v. ifd ImageIFD_DateTime = Some v \<and> \<not> truthy v)"
  shows "get_photo_datetime w path = (Inr fb, [])"
proof -
  have "photo_try w path = Inr None"
    using assms(2-4) photo_try_absent photo_try_falsy by blast
  then show ?thesis by (rule photo_result_cases(2) [OF fb])
qed

theorem photo_absent_tag_silent_witness:
  "fallback_dt example_world ''/in/a.jpg'' = Inr (morning 2022 1 1) \<and>
   piexif_load example_world ''/in/a.jpg'' = Inr [''0th'' \<mapsto> Map.empty] \<and>
   [''0th'' \<mapsto> (Map.empty :: nat \<rightharpoonup> exif_value)] ''0th'' = Some Map.empty \<and>
   (Map.empty :: nat \<rightharpoonup> exif_value) ImageIFD_DateTime = None \<and>
   get_photo_datetime example_world ''/in/a.jpg'' = (Inr (morning 2022 1 1), [])"
proof -
  have f: "fallback_dt example_world ''/in/a.jpg'' = Inr (morning 2022 1 1)"
    by (simp add: fallback_dt_def example_world_def)
  have l: "piexif_load example_world ''/in/a.jpg'' = Inr [''0th'' \<mapsto> Map.empty]"
    by (simp add: example_world_def)
  have z: "[''0th'' \<mapsto> (Map.empty :: nat \<rightharpoonup> exif_value)] ''0th'' = Some Map.empty" by simp
  have n: "(Map.empty :: nat \<rightharpoonup> exif_value) ImageIFD_DateTime = None" by simp
  have "(Map.empty :: nat \<rightharpoonup> exif_value) ImageIFD_DateTime = None \<or>
      (\<exists>v. (Map.empty :: nat \<rightharpoonup> exif_value) ImageIFD_DateTime = Some v \<and> \<not> truthy v)"
    using n by blast
  from photo_absent_tag_silent [OF f l z this] f l z n show ?thesis by blast
qed

lemma photo_try_parses:
  "piexif_load w path = Inr d \<Longrightarrow> d ''0th'' = Some ifd \<Longrightarrow> ifd ImageIFD_DateTime = Some v \<Longrightarrow>
   truthy v \<Longrightarrow> value_decode w v = Inr txt \<Longrightarrow> strptime w txt ''%Y:%m:%d %H:%M:%S'' = Inr dt \<Longrightarrow>
   photo_try w path = Inr (Some dt)"
  by (simp add: photo_try_def)

text \<open>
  C4.  For a photo with modification time \<open>fb\<close> whose DateTime tag holds a non-empty byte
  string that decodes and parses under \<^verbatim>\<open>%Y:%m:%d %H:%M:%S\<close> to \<open>dt\<close>, the resolver returns
  \<open>dt\<close>, whatever \<open>fb\<close> is, and prints nothing.
\<close>

theorem photo_metadata_wins:
  assumes "fallback_dt w path = Inr fb"
    and "piexif_load w path = Inr d" and "d ''0th'' = Some ifd"
    and "ifd ImageIFD_DateTime = Some (Bytes b)" and "b \<noteq> []"
    and "decode w b = Inr txt" and "strptime w txt ''%Y:%m:%d %H:%M:%S'' = Inr dt"
  shows "get_photo_datetime w path = (Inr dt, [])"
proof -
  have "photo_try w path = Inr (Some dt)"
    using assms(2-7) by (simp add: photo_try_def)
  then show ?thesis by (rule photo_result_cases(1) [OF assms(1)])
qed

theorem photo_metadata_wins_witness:
  "fallback_dt example_world ''/in/b.jpg'' = Inr (morning 2023 3 3) \<and>
   piexif_load example_world ''/in/b.jpg'' =
     Inr [''0th'' \<mapsto> [ImageIFD_DateTime \<mapsto> Bytes ''2021:06:15 08:00:00'']] \<and>
   decode example_world ''2021:06:15 08:00:00'' = Inr ''2021:06:15 08:00:00'' \<and>
   strptime example_world ''2021:06:15 08:00:00'' ''%Y:%m:%d %H:%M:%S'' = Inr (morning 2021 6 15) \<and>
   get_photo_datetime example_world ''/in/b.jpg'' = (Inr (morning 2021 6 15), [])"
proof -
  have f: "fallback_dt example_world ''/in/b.jpg'' = Inr (morning 2023 3 3)"
    by (simp add: fallback_dt_def example_world_def)
  have l: "piexif_load example_world ''/in/b.jpg'' =
     Inr [''0th'' \<mapsto> [ImageIFD_DateTime \<mapsto> Bytes ''2021:06:15 08:00:00'']]"
    by (simp add: example_world_def)
  have d: "decode example_world ''2021:06:15 08:00:00'' = Inr ''2021:06:15 08:00:00''"
    by (simp add: example_world_def)
  have p: "strptime example_world ''2021:06:15 08:00:00'' ''%Y:%m:%d %H:%M:%S'' = Inr (morning 2021 6 15)"
    by (simp add: example_world_def)
  have h3: "[''0th'' \<mapsto> [ImageIFD_DateTime \<mapsto> Bytes ''2021:06:15 08:00:00'']] ''0th'' =
      Some [ImageIFD_DateTime \<mapsto> Bytes ''2021:06:15 08:00:00'']" by simp
  have h4: "[ImageIFD_DateTime \<mapsto> Bytes ''2021:06:15 08:00:00''] ImageIFD_DateTime =
      Some (Bytes ''2021:06:15 08:00:00'')" by simp
  have h5: "''2021:06:15 08:00:00'' \<noteq> []" by simp
  from photo_metadata_wins [OF f l h3 h4 h5 d p] f l d p show ?thesis by blast
qed

lemma video_try_probe_fails:
  "check_output w (creation_time_cmd path) = Inl e \<Longrightarrow> video_try w path = (Inl e, [])"
  by (simp add: video_try_def)

lemma video_try_empty:
  "check_output w (creation_time_cmd path) = Inr out \<Longrightarrow> decode w out = Inr txt \<Longrightarrow>
   str_strip txt = [] \<Longrightarrow> video_try w path = (Inr None, [])"
  by (simp add: video_try_def)

lemma video_try_parses:
  "check_output w (creation_time_cmd path) = Inr out \<Longrightarrow> decode w out = Inr txt \<Longrightarrow>
   str_strip txt \<noteq> [] \<Longrightarrow>
   fromisoformat w (str_replace CHR ''Z'' ''+00:00'' (str_strip txt)) = Inr dt \<Longrightarrow>
   video_try w path = (Inr (Some dt), [])"
  by (simp add: video_try_def)

lemma video_try_parse_fails:
  "check_output w (creation_time_cmd path) = Inr out \<Longrightarrow> decode w out = Inr txt \<Longrightarrow>
   str_strip txt \<noteq> [] \<Longrightarrow>
   fromisoformat w (str_replace CHR ''Z'' ''+00:00'' (str_strip txt)) = Inl e \<Longrightarrow> is_ValueError e \<Longrightarrow>
   video_try w path =
     (Inr None, [''Warning: Could not parse video creation time '' @ [CHR 0x27] @ str_strip txt @
                 [CHR 0x27] @ ''. Using mtime.''])"
  by (simp add: video_try_def)

lemma str_replace_absent: "c \<notin> set s \<Longrightarrow> str_replace c new s = s"
  by (induction s) (auto simp: str_replace_def)

lemma str_replace_append: "str_replace c new (a @ b) = str_replace c new a @ str_replace c new b"
  by (simp add: str_replace_def)

lemma replace_only_trailing:
  assumes "CHR ''Z'' \<notin> set (butlast s)"
  shows "str_replace CHR ''Z'' ''+00:00'' s = replace_trailing_Z s"
proof (cases "s = []")
  case True
  then show ?thesis by (simp add: str_replace_def replace_trailing_Z_def)
next
  case False
  then have s: "s = butlast s @ [last s]" by simp
  have "str_replace CHR ''Z'' ''+00:00'' s =
      butlast s @ str_replace CHR ''Z'' ''+00:00'' [last s]"
    by (subst s) (simp only: str_replace_append str_replace_absent [OF assms])
  also have "\<dots> = replace_trailing_Z s"
    using False by (simp add: str_replace_def replace_trailing_Z_def)
  finally show ?thesis .
qed

text \<open>
  C5.  For a video with modification time \<open>fb\<close>: when the prober exits with a failure
  status (\<^verbatim>\<open>CalledProcessError\<close>), or prints nothing but white space, the resolver
  returns \<open>fb\<close> and prints nothing.
\<close>

theorem video_silent_fallback:
  assumes "fallback_dt w path = Inr fb"
    and "(\<exists>e. check_output w (creation_time_cmd path) = Inl e \<and> is_CalledProcessError e) \<or>
         (\<exists>out txt. check_output w (creation_time_cmd path) = Inr out \<and> decode w out = Inr txt \<and>
            str_strip txt = [])"
  shows "get_video_datetime w path = (Inr fb, [])"
  using assms(2)
proof (elim disjE exE conjE)
  fix e
  assume "check_output w (creation_time_cmd path) = Inl e" "is_CalledProcessError e"
  then show ?thesis
    using video_result_cases(3) [OF assms(1) video_try_probe_fails] by blast
next
  fix out t
  assume "check_output w (creation_time_cmd path) = Inr out" "decode w out = Inr t" "str_strip t = []"
  then show ?thesis
    using video_result_cases(2) [OF assms(1) video_try_empty] by blast
qed

lemma example_fallback_video: "fallback_dt example_world ''/in/d.mov'' = Inr (morning 2023 3 3)"
  by (simp add: fallback_dt_def example_world_def)

lemma example_probe_d: "check_output example_world (creation_time_cmd ''/in/d.mov'') = Inr []"
  by (simp add: example_world_def creation_time_cmd_def audio_codec_cmd_def shlex_quote_def
      is_safe_char_def)

theorem video_silent_fallback_witness:
  "fallback_dt example_world ''/in/d.mov'' = Inr (morning 2023 3 3) \<and>
   check_output example_world (creation_time_cmd ''/in/d.mov'') = Inr [] \<and>
   decode example_world [] = Inr [] \<and> str_strip [] = [] \<and>
   get_video_datetime example_world ''/in/d.mov'' = (Inr (morning 2023 3 3), [])"
proof -
  have d: "decode example_world [] = Inr []" by (simp add: example_world_def)
  have t: "str_strip [] = []" by (simp add: str_strip_def)
  have "(\<exists>e. check_output example_world (creation_time_cmd ''/in/d.mov'') = Inl e \<and> is_CalledProcessError e) \<or>
         (\<exists>out txt. check_output example_world (creation_time_cmd ''/in/d.mov'') = Inr out \<and>
            decode example_world out = Inr txt \<and> str_strip txt = [])"
    using example_probe_d d t by blast
  from video_silent_fallback [OF example_fallback_video this] example_fallback_video example_probe_d d t
  show ?thesis by blast
qed

text \<open>
  C6.  For a video with modification time \<open>fb\<close> whose prober output, decoded and
  stripped, is a non-empty string \<open>cs\<close>: when \<open>cs\<close> has no \<open>Z\<close> but possibly its last
  character (as every ISO-8601 timestamp) and \<open>cs\<close> with the trailing \<open>Z\<close> replaced
  by \<open>+00:00\<close> parses to \<open>dt\<close>, the resolver returns \<open>dt\<close> and prints nothing; when the
  string handed to the parser is rejected with a \<^verbatim>\<open>ValueError\<close>, the resolver returns \<open>fb\<close>
  and prints one warning that quotes \<open>cs\<close>.
\<close>

theorem video_iso_timestamp:
  assumes "fallback_dt w path = Inr fb"
    and "check_output w (creation_time_cmd path) = Inr out"
    and "decode w out = Inr txt"
    and "str_strip txt \<noteq> []"
  shows "(\<forall>dt. CHR ''Z'' \<notin> set (butlast (str_strip txt)) \<and>
              fromisoformat w (replace_trailing_Z (str_strip txt)) = Inr dt \<longrightarrow>
            get_video_datetime w path = (Inr dt, [])) \<and>
         (\<forall>e. fromisoformat w (str_replace CHR ''Z'' ''+00:00'' (str_strip txt)) = Inl e \<and>
              is_ValueError e \<longrightarrow>
            get_video_datetime w path =
              (Inr fb, [''Warning: Could not parse video creation time '' @ [CHR 0x27] @
                        str_strip txt @ [CHR 0x27] @ ''. Using mtime.'']))"
proof (intro conjI allI impI)
  fix dt
  assume a: "CHR ''Z'' \<notin> set (butlast (str_strip txt)) \<and>
              fromisoformat w (replace_trailing_Z (str_strip txt)) = Inr dt"
  then have "fromisoformat w (str_replace CHR ''Z'' ''+00:00'' (str_strip txt)) = Inr dt"
    by (simp add: replace_only_trailing)
  from video_result_cases(1) [OF assms(1) video_try_parses [OF assms(2-4) this]]
  show "get_video_datetime w path = (Inr dt, [])" .
next
  fix e
  assume "fromisoformat w (str_replace CHR ''Z'' ''+00:00'' (str_strip txt)) = Inl e \<and> is_ValueError e"
  then have "video_try w path =
     (Inr None, [''Warning: Could not parse video creation time '' @ [CHR 0x27] @ str_strip txt @
                 [CHR 0x27] @ ''. Using mtime.''])"
    using video_try_parse_fails [OF assms(2-4)] by blast
  from video_result_cases(2) [OF assms(1) this]
  show "get_video_datetime w path =
              (Inr fb, [''Warning: Could not parse video creation time '' @ [CHR 0x27] @
                        str_strip txt @ [CHR 0x27] @ ''. Using mtime.''])" .
qed

theorem video_iso_timestamp_witness:
  "fallback_dt example_world ''/in/c.mov'' = Inr (morning 2023 3 3) \<and>
   check_output example_world (creation_time_cmd ''/in/c.mov'') =
     Inr (''2023-12-14T10:30:00.000000Z'' @ [CHR 0x0A]) \<and>
   decode example_world (''2023-12-14T10:30:00.000000Z'' @ [CHR 0x0A]) =
     Inr (''2023-12-14T10:30:00.000000Z'' @ [CHR 0x0A]) \<and>
   str_strip (''2023-12-14T10:30:00.000000Z'' @ [CHR 0x0A]) = ''2023-12-14T10:30:00.000000Z'' \<and>
   CHR ''Z'' \<notin> set (butlast ''2023-12-14T10:30:00.000000Z'') \<and>
   replace_trailing_Z ''2023-12-14T10:30:00.000000Z'' = ''2023-12-14T10:30:00.000000+00:00'' \<and>
   fromisoformat example_world ''2023-12-14T10:30:00.000000+00:00'' = Inr utc_example \<and>
   get_video_datetime example_world ''/in/c.mov'' = (Inr utc_example, [])"
proof -
  let ?out = "''2023-12-14T10:30:00.000000Z'' @ [CHR 0x0A]"
  have f: "fallback_dt example_world ''/in/c.mov'' = Inr (morning 2023 3 3)"
    by (simp add: fallback_dt_def example_world_def)
  have c: "check_output example_world (creation_time_cmd ''/in/c.mov'') = Inr ?out"
    by (simp add: example_world_def)
  have d: "decode example_world ?out = Inr ?out" by (simp add: example_world_def)
  have t: "str_strip ?out = ''2023-12-14T10:30:00.000000Z''"
    by (simp add: str_strip_def is_space_def)
  have n: "str_strip ?out \<noteq> []" unfolding t by simp
  have z: "CHR ''Z'' \<notin> set (butlast ''2023-12-14T10:30:00.000000Z'')" by simp
  have r: "replace_trailing_Z ''2023-12-14T10:30:00.000000Z'' = ''2023-12-14T10:30:00.000000+00:00''"
    by (simp add: replace_trailing_Z_def)
  have p: "fromisoformat example_world ''2023-12-14T10:30:00.000000+00:00'' = Inr utc_example"
    by (simp add: example_world_def)
  from video_iso_timestamp [OF f c d n] have
    "CHR ''Z'' \<notin> set (butlast (str_strip ?out)) \<and>
       fromisoformat example_world (replace_trailing_Z (str_strip ?out)) = Inr utc_example \<longrightarrow>
     get_video_datetime example_world ''/in/c.mov'' = (Inr utc_example, [])"
    by blast
  then have "get_video_datetime example_world ''/in/c.mov'' = (Inr utc_example, [])"
    unfolding t using z r p by simp
  with f c d t z r p show ?thesis by blast
qed


lemma convert_video_no_ffmpeg:
  "fst (get_video_datetime w src) = Inl e \<or>
   (\<exists>dt. fst (get_video_datetime w src) = Inr dt \<and> probe_audio_codec w src = Inl e) \<Longrightarrow>
   ran (snd (convert_video w src dst_dir s)) = ran s"
  by (auto simp: convert_video_def gen_name_eq Let_def split: sum.splits prod.splits)








lemma video_ext_not_photo: "ext \<in> VIDEO_EXTENSIONS \<Longrightarrow> ext \<notin> PHOTO_EXTENSIONS"
  by (auto simp: VIDEO_EXTENSIONS_def PHOTO_EXTENSIONS_def)

lemma process_file_photo_fails:
  assumes "str_lower (splitext_ext path) \<in> PHOTO_EXTENSIONS" and "mode \<in> {''photo'', ''both''}"
    and "copy_photo w path output_dir (print_line (CHR 0x0A # ''Copying photo: '' @ path) s) = (Inl e, s')"
  shows "process_file w mode path output_dir s =
           print_line (''FATAL Error copying photo '' @ path @ '': '' @ exn_str e) s'"
  using assms by (simp add: process_file_def Let_def)

lemma process_file_video_fails:
  assumes "str_lower (splitext_ext path) \<in> VIDEO_EXTENSIONS" and "mode \<in> {''video'', ''both''}"
    and "convert_video w path output_dir (print_line (CHR 0x0A # ''Processing video: '' @ path) s) = (Inl e, s')"
  shows "process_file w mode path output_dir s =
           print_line (''FATAL Error converting video '' @ path @
                       (if is_CalledProcessError e then '' (FFmpeg failed): '' else '': '') @
                       exn_str e) s'"
  using assms video_ext_not_photo [OF assms(1)] by (simp add: process_file_def Let_def)

lemma process_file_skips:
  assumes "str_lower (splitext_ext path) \<notin> PHOTO_EXTENSIONS \<or> mode \<notin> {''photo'', ''both''}"
    and "str_lower (splitext_ext path) \<notin> VIDEO_EXTENSIONS \<or> mode \<notin> {''video'', ''both''}"
  shows "process_file w mode path output_dir s = s"
  using assms by (auto simp: process_file_def Let_def)

lemma process_files_append:
  "process_files w mode output_dir root (fs @ gs) s =
     process_files w mode output_dir root gs (process_files w mode output_dir root fs s)"
  by (induction fs arbitrary: s) simp_all

lemma process_dirs_append:
  "process_dirs w mode output_dir (ds @ es) s =
     process_dirs w mode output_dir es (process_dirs w mode output_dir ds s)"
  by (induction ds arbitrary: s) auto

lemma process_files_fold:
  "process_files w mode output_dir root files s =
     fold (\<lambda>file st. process_file w mode (path_join root file) output_dir st) files s"
  by (induction files arbitrary: s) simp_all

lemma process_dirs_fold:
  "process_dirs w mode output_dir dirs s =
     fold (\<lambda>(root, files) st.
             fold (\<lambda>file st'. process_file w mode (path_join root file) output_dir st') files st)
       dirs s"
  by (induction dirs arbitrary: s) (auto simp: process_files_fold)

text \<open>
  C8.  \<^verbatim>\<open>process_file\<close> always hands back a state.  When the photo copier raises \<open>e\<close>, the
  state it left is kept and one line with the path and the text of \<open>e\<close> is printed; when
  the video converter raises \<open>e\<close>, the same happens, and the line says
  \<open>(FFmpeg failed)\<close> exactly when \<open>e\<close> is a \<^verbatim>\<open>CalledProcessError\<close>.  A file whose extension
  is in neither set, or whose kind the mode excludes, leaves the state as it was.  In
  The loop over the files of a directory applies \<^verbatim>\<open>process_file\<close> to every file in order,
  each from the state the file before it left (an empty list leaves the state as it
  was), and the loop over the directories does so for every directory: whatever happens
  at one file, the files after it are processed.  Once the output directory exists the
  whole run returns.
\<close>

theorem dispatcher_isolates_failures:
  "(\<forall>e s'. str_lower (splitext_ext path) \<in> PHOTO_EXTENSIONS \<and> mode \<in> {''photo'', ''both''} \<and>
       copy_photo w path output_dir (print_line (CHR 0x0A # ''Copying photo: '' @ path) s) = (Inl e, s') \<longrightarrow>
       process_file w mode path output_dir s =
         print_line (''FATAL Error copying photo '' @ path @ '': '' @ exn_str e) s') \<and>
   (\<forall>e s'. str_lower (splitext_ext path) \<in> VIDEO_EXTENSIONS \<and> mode \<in> {''video'', ''both''} \<and>
       convert_video w path output_dir (print_line (CHR 0x0A # ''Processing video: '' @ path) s) = (Inl e, s') \<longrightarrow>
       process_file w mode path output_dir s =
         print_line (''FATAL Error converting video '' @ path @
                     (if is_CalledProcessError e then '' (FFmpeg failed): '' else '': '') @
                     exn_str e) s') \<and>
   ((str_lower (splitext_ext path) \<notin> PHOTO_EXTENSIONS \<and> str_lower (splitext_ext path) \<notin> VIDEO_EXTENSIONS) \<or>
    (str_lower (splitext_ext path) \<in> PHOTO_EXTENSIONS \<and> mode \<notin> {''photo'', ''both''}) \<or>
    (str_lower (splitext_ext path) \<in> VIDEO_EXTENSIONS \<and> mode \<notin> {''video'', ''both''}) \<longrightarrow>
       process_file w mode path output_dir s = s) \<and>
   (\<forall>root files.
       process_files w mode output_dir root files s =
         fold (\<lambda>file st. process_file w mode (path_join root file) output_dir st) files s) \<and>
   (\<forall>dirs.
       process_dirs w mode output_dir dirs s =
         fold (\<lambda>(root, files) st.
                 fold (\<lambda>file st'. process_file w mode (path_join root file) output_dir st') files st)
           dirs s) \<and>
   (\<forall>root before file after.
       process_files w mode output_dir root (before @ file # after) s =
         process_files w mode output_dir root after
           (process_file w mode (path_join root file) output_dir
              (process_files w mode output_dir root before s))) \<and>
   (\<forall>before root files after.
       process_dirs w mode output_dir (before @ (root, files) # after) s =
         process_dirs w mode output_dir after
           (process_files w mode output_dir root files
              (process_dirs w mode output_dir before s))) \<and>
   (ensure_dir w output_dir = Inr () \<longrightarrow>
       recurse_and_process w mode input_dir output_dir s =
         Inr (print_line (CHR 0x0A # ''Processing complete.'')
                (process_dirs w mode output_dir (os_walk w input_dir)
                   (print_line (''Starting processing from '' @ input_dir @ ''...'') s))))"
proof (intro conjI allI impI)
  fix e s'
  assume "str_lower (splitext_ext path) \<in> PHOTO_EXTENSIONS \<and> mode \<in> {''photo'', ''both''} \<and>
       copy_photo w path output_dir (print_line (CHR 0x0A # ''Copying photo: '' @ path) s) = (Inl e, s')"
  then show "process_file w mode path output_dir s =
         print_line (''FATAL Error copying photo '' @ path @ '': '' @ exn_str e) s'"
    using process_file_photo_fails by blast
next
  fix e s'
  assume "str_lower (splitext_ext path) \<in> VIDEO_EXTENSIONS \<and> mode \<in> {''video'', ''both''} \<and>
       convert_video w path output_dir (print_line (CHR 0x0A # ''Processing video: '' @ path) s) = (Inl e, s')"
  then show "process_file w mode path output_dir s =
         print_line (''FATAL Error converting video '' @ path @
                     (if is_CalledProcessError e then '' (FFmpeg failed): '' else '': '') @
                     exn_str e) s'"
    using process_file_video_fails by blast
next
  assume "(str_lower (splitext_ext path) \<notin> PHOTO_EXTENSIONS \<and> str_lower (splitext_ext path) \<notin> VIDEO_EXTENSIONS) \<or>
    (str_lower (splitext_ext path) \<in> PHOTO_EXTENSIONS \<and> mode \<notin> {''photo'', ''both''}) \<or>
    (str_lower (splitext_ext path) \<in> VIDEO_EXTENSIONS \<and> mode \<notin> {''video'', ''both''})"
  then show "process_file w mode path output_dir s = s"
    using process_file_skips [of path mode w output_dir s] video_ext_not_photo by blast
next
  fix r fs
  show "process_files w mode output_dir r fs s =
         fold (\<lambda>file st. process_file w mode (path_join r file) output_dir st) fs s"
    by (rule process_files_fold)
next
  fix ds
  show "process_dirs w mode output_dir ds s =
         fold (\<lambda>(root, files) st.
                 fold (\<lambda>file st'. process_file w mode (path_join root file) output_dir st') files st)
           ds s"
    by (rule process_dirs_fold)
next
  fix r b f a
  show "process_files w mode output_dir r (b @ f # a) s =
         process_files w mode output_dir r a
           (process_file w mode (path_join r f) output_dir
              (process_files w mode output_dir r b s))"
    by (simp add: process_files_append)
next
  fix b r fs a
  show "process_dirs w mode output_dir (b @ (r, fs) # a) s =
         process_dirs w mode output_dir a
           (process_files w mode output_dir r fs
              (process_dirs w mode output_dir b s))"
    by (simp add: process_dirs_append)
next
  assume "ensure_dir w output_dir = Inr ()"
  then show "recurse_and_process w mode input_dir output_dir s =
         Inr (print_line (CHR 0x0A # ''Processing complete.'')
                (process_dirs w mode output_dir (os_walk w input_dir)
                   (print_line (''Starting processing from '' @ input_dir @ ''...'') s)))"
    by (simp add: recurse_and_process_def)
qed

lemma flaky_ext: "str_lower (splitext_ext ''/in/a.jpg'') = ''.jpg''"
  by code_simp

lemma jpg_is_photo: "''.jpg'' \<in> PHOTO_EXTENSIONS"
  by (simp add: PHOTO_EXTENSIONS_def)

lemma flaky_copy_fails:
  "fst (copy_photo flaky_world ''/in/a.jpg'' ''/out''
          (print_line (CHR 0x0A # ''Copying photo: '' @ ''/in/a.jpg'') init_state)) =
   Inl (Exn OSError ''[Errno 28] No space left on device'')"
  by code_simp

lemma flaky_stdout:
  "stdout (print_line (''FATAL Error copying photo '' @ ''/in/a.jpg'' @ '': '' @
                       exn_str (Exn OSError ''[Errno 28] No space left on device''))
             (snd (copy_photo flaky_world ''/in/a.jpg'' ''/out''
                     (print_line (CHR 0x0A # ''Copying photo: '' @ ''/in/a.jpg'') init_state)))) =
   [CHR 0x0A # ''Copying photo: /in/a.jpg'',
    ''FATAL Error copying photo /in/a.jpg: [Errno 28] No space left on device'']"
  by code_simp

lemma flaky_batch_stdout:
  "stdout (fold (\<lambda>file st. process_file flaky_world ''photo'' (path_join ''/in'' file) ''/out'' st)
             [''a.jpg'', ''e.jpg''] init_state) =
   [CHR 0x0A # ''Copying photo: /in/a.jpg'',
    ''FATAL Error copying photo /in/a.jpg: [Errno 28] No space left on device'',
    CHR 0x0A # ''Copying photo: /in/e.jpg'',
    ''-> Copied to: /out/2022_01_01_002.jpg'']"
  by code_simp

theorem dispatcher_isolates_failures_witness:
  "str_lower (splitext_ext ''/in/a.jpg'') \<in> PHOTO_EXTENSIONS \<and>
   fst (copy_photo flaky_world ''/in/a.jpg'' ''/out''
          (print_line (CHR 0x0A # ''Copying photo: '' @ ''/in/a.jpg'') init_state)) =
     Inl (Exn OSError ''[Errno 28] No space left on device'') \<and>
   stdout (process_file flaky_world ''photo'' ''/in/a.jpg'' ''/out'' init_state) =
     [CHR 0x0A # ''Copying photo: /in/a.jpg'',
      ''FATAL Error copying photo /in/a.jpg: [Errno 28] No space left on device''] \<and>
   stdout (process_files flaky_world ''photo'' ''/out'' ''/in'' [''a.jpg'', ''e.jpg''] init_state) =
     [CHR 0x0A # ''Copying photo: /in/a.jpg'',
      ''FATAL Error copying photo /in/a.jpg: [Errno 28] No space left on device'',
      CHR 0x0A # ''Copying photo: /in/e.jpg'',
      ''-> Copied to: /out/2022_01_01_002.jpg'']"
proof -
  let ?s0 = "print_line (CHR 0x0A # ''Copying photo: '' @ ''/in/a.jpg'') init_state"
  let ?e = "Exn OSError ''[Errno 28] No space left on device''"
  note t = dispatcher_isolates_failures [of "''/in/a.jpg''" "''photo''" flaky_world "''/out''" init_state]
  have x: "str_lower (splitext_ext ''/in/a.jpg'') \<in> PHOTO_EXTENSIONS"
    unfolding flaky_ext by (rule jpg_is_photo)
  have m: "''photo'' \<in> {''photo'', ''both''}" by simp
  have c: "copy_photo flaky_world ''/in/a.jpg'' ''/out'' ?s0 =
      (Inl ?e, snd (copy_photo flaky_world ''/in/a.jpg'' ''/out'' ?s0))"
    using flaky_copy_fails by (metis prod.collapse)
  from t
  have "str_lower (splitext_ext ''/in/a.jpg'') \<in> PHOTO_EXTENSIONS \<and> ''photo'' \<in> {''photo'', ''both''} \<and>
       copy_photo flaky_world ''/in/a.jpg'' ''/out'' ?s0 =
         (Inl ?e, snd (copy_photo flaky_world ''/in/a.jpg'' ''/out'' ?s0)) \<longrightarrow>
       process_file flaky_world ''photo'' ''/in/a.jpg'' ''/out'' init_state =
         print_line (''FATAL Error copying photo '' @ ''/in/a.jpg'' @ '': '' @ exn_str ?e)
           (snd (copy_photo flaky_world ''/in/a.jpg'' ''/out'' ?s0))"
    by blast
  with x m c have "process_file flaky_world ''photo'' ''/in/a.jpg'' ''/out'' init_state =
         print_line (''FATAL Error copying photo '' @ ''/in/a.jpg'' @ '': '' @ exn_str ?e)
           (snd (copy_photo flaky_world ''/in/a.jpg'' ''/out'' ?s0))"
    by blast
  then have one: "stdout (process_file flaky_world ''photo'' ''/in/a.jpg'' ''/out'' init_state) =
     [CHR 0x0A # ''Copying photo: /in/a.jpg'',
      ''FATAL Error copying photo /in/a.jpg: [Errno 28] No space left on device'']"
    by (simp only: flaky_stdout)
  from t have "process_files flaky_world ''photo'' ''/out'' ''/in'' [''a.jpg'', ''e.jpg''] init_state =
      fold (\<lambda>file st. process_file flaky_world ''photo'' (path_join ''/in'' file) ''/out'' st)
        [''a.jpg'', ''e.jpg''] init_state"
    by blast
  then have two: "stdout (process_files flaky_world ''photo'' ''/out'' ''/in'' [''a.jpg'', ''e.jpg''] init_state) =
     [CHR 0x0A # ''Copying photo: /in/a.jpg'',
      ''FATAL Error copying photo /in/a.jpg: [Errno 28] No space left on device'',
      CHR 0x0A # ''Copying photo: /in/e.jpg'',
      ''-> Copied to: /out/2022_01_01_002.jpg'']"
    by (simp only: flaky_batch_stdout)
  from x flaky_copy_fails one two show ?thesis by blast
qed

lemma copy_photo_fails_after_naming:
  assumes "get_photo_datetime w src = (Inr dt, out)"
    and "copy2 w src
           (path_join dst_dir
              (strftime_Ymd dt @ ''_'' @
               fmt_03d (counter_of (date_counters s) (strftime_Ymd dt) + 1) @
               str_lower (splitext_ext src))) = Inl e"
  shows "copy_photo w src dst_dir s =
           (Inl e, s\<lparr>stdout := stdout s @ out,
                     date_counters := (date_counters s)
                       (strftime_Ymd dt \<mapsto> counter_of (date_counters s) (strftime_Ymd dt) + 1)\<rparr>)"
  using assms by (simp add: copy_photo_def gen_name_eq Let_def)

lemma convert_video_fails_after_naming:
  assumes "get_video_datetime w src = (Inr dt, out)"
    and "probe_audio_codec w src = Inl e \<or>
         (\<exists>codec. probe_audio_codec w src = Inr codec \<and>
            subprocess_run w
              (ffmpeg_cmd src codec
                 (path_join dst_dir
                    (strftime_Ymd dt @ ''_'' @
                     fmt_03d (counter_of (date_counters s) (strftime_Ymd dt) + 1) @ ''.mp4''))) = Inl e)"
  shows "fst (convert_video w src dst_dir s) = Inl e \<and>
         date_counters (snd (convert_video w src dst_dir s)) =
           (date_counters s)(strftime_Ymd dt \<mapsto> counter_of (date_counters s) (strftime_Ymd dt) + 1) \<and>
         written (snd (convert_video w src dst_dir s)) = written s"
  using assms by (auto simp: convert_video_def gen_name_eq Let_def)

text \<open>
  C9.  When the copy of a photo raises after the name was generated, \<^verbatim>\<open>copy_photo\<close> raises
  that exception, the table entry of the photo's date stays one higher than before and no
  output is recorded; the same holds for \<^verbatim>\<open>convert_video\<close> when the audio probe or ffmpeg
  raises.  So the counters of the outputs of a date can have gaps: of two photos of
  1 January 2022 of which the first fails to be copied, the only output is number 002.
\<close>

theorem counter_consumed_on_failure:
  "(\<forall>dt out e.
      get_photo_datetime w src = (Inr dt, out) \<and>
      copy2 w src
        (path_join dst_dir
           (strftime_Ymd dt @ ''_'' @
            fmt_03d (counter_of (date_counters s) (strftime_Ymd dt) + 1) @
            str_lower (splitext_ext src))) = Inl e \<longrightarrow>
      fst (copy_photo w src dst_dir s) = Inl e \<and>
      counter_of (date_counters (snd (copy_photo w src dst_dir s))) (strftime_Ymd dt) =
        counter_of (date_counters s) (strftime_Ymd dt) + 1 \<and>
      written (snd (copy_photo w src dst_dir s)) = written s) \<and>
   (\<forall>dt out e.
      get_video_datetime w src = (Inr dt, out) \<and>
      (probe_audio_codec w src = Inl e \<or>
       (\<exists>codec. probe_audio_codec w src = Inr codec \<and>
          subprocess_run w
            (ffmpeg_cmd src codec
               (path_join dst_dir
                  (strftime_Ymd dt @ ''_'' @
                   fmt_03d (counter_of (date_counters s) (strftime_Ymd dt) + 1) @ ''.mp4''))) = Inl e)) \<longrightarrow>
      fst (convert_video w src dst_dir s) = Inl e \<and>
      counter_of (date_counters (snd (convert_video w src dst_dir s))) (strftime_Ymd dt) =
        counter_of (date_counters s) (strftime_Ymd dt) + 1 \<and>
      written (snd (convert_video w src dst_dir s)) = written s) \<and>
   written (process_files flaky_world ''photo'' ''/out'' ''/in'' [''a.jpg'', ''e.jpg''] init_state) =
     [''/out/2022_01_01_002.jpg''] \<and>
   counter_of (date_counters
       (process_files flaky_world ''photo'' ''/out'' ''/in'' [''a.jpg'', ''e.jpg''] init_state))
     ''2022_01_01'' = 2"
proof (intro conjI allI impI)
  fix dt out e
  assume a: "get_photo_datetime w src = (Inr dt, out) \<and>
      copy2 w src
        (path_join dst_dir
           (strftime_Ymd dt @ ''_'' @
            fmt_03d (counter_of (date_counters s) (strftime_Ymd dt) + 1) @
            str_lower (splitext_ext src))) = Inl e"
  note r = copy_photo_fails_after_naming [OF conjunct1 [OF a] conjunct2 [OF a]]
  show "fst (copy_photo w src dst_dir s) = Inl e" by (simp add: r)
  show "counter_of (date_counters (snd (copy_photo w src dst_dir s))) (strftime_Ymd dt) =
        counter_of (date_counters s) (strftime_Ymd dt) + 1"
    by (simp add: r counter_of_def)
  show "written (snd (copy_photo w src dst_dir s)) = written s" by (simp add: r)
next
  fix dt out e
  assume a: "get_video_datetime w src = (Inr dt, out) \<and>
      (probe_audio_codec w src = Inl e \<or>
       (\<exists>codec. probe_audio_codec w src = Inr codec \<and>
          subprocess_run w
            (ffmpeg_cmd src codec
               (path_join dst_dir
                  (strftime_Ymd dt @ ''_'' @
                   fmt_03d (counter_of (date_counters s) (strftime_Ymd dt) + 1) @ ''.mp4''))) = Inl e))"
  note r = convert_video_fails_after_naming [OF conjunct1 [OF a] conjunct2 [OF a]]
  show "fst (convert_video w src dst_dir s) = Inl e" using r by blast
  show "counter_of (date_counters (snd (convert_video w src dst_dir s))) (strftime_Ymd dt) =
        counter_of (date_counters s) (strftime_Ymd dt) + 1"
    using r by (simp add: counter_of_def)
  show "written (snd (convert_video w src dst_dir s)) = written s" using r by blast
next
  show "written (process_files flaky_world ''photo'' ''/out'' ''/in'' [''a.jpg'', ''e.jpg''] init_state) =
     [''/out/2022_01_01_002.jpg'']"
    by code_simp
next
  show "counter_of (date_counters
       (process_files flaky_world ''photo'' ''/out'' ''/in'' [''a.jpg'', ''e.jpg''] init_state))
     ''2022_01_01'' = 2"
    by code_simp
qed

lemma flaky_photo_a: "get_photo_datetime flaky_world ''/in/a.jpg'' = (Inr (morning 2022 1 1), [])"
  by (simp add: get_photo_datetime_def fallback_dt_def photo_try_def flaky_world_def example_world_def)

lemma flaky_name_a:
  "path_join ''/out''
     (strftime_Ymd (morning 2022 1 1) @ ''_'' @
      fmt_03d (counter_of (date_counters init_state) (strftime_Ymd (morning 2022 1 1)) + 1) @
      str_lower (splitext_ext ''/in/a.jpg'')) = ''/out/2022_01_01_001.jpg''"
  by code_simp

lemma flaky_copy_a:
  "copy2 flaky_world ''/in/a.jpg'' ''/out/2022_01_01_001.jpg'' =
     Inl (Exn OSError ''[Errno 28] No space left on device'')"
  by (simp add: flaky_world_def)

lemma flaky_key: "strftime_Ymd (morning 2022 1 1) = ''2022_01_01''"
  by code_simp

theorem counter_consumed_on_failure_witness:
  "get_photo_datetime flaky_world ''/in/a.jpg'' = (Inr (morning 2022 1 1), []) \<and>
   copy2 flaky_world ''/in/a.jpg'' ''/out/2022_01_01_001.jpg'' =
     Inl (Exn OSError ''[Errno 28] No space left on device'') \<and>
   counter_of (date_counters init_state) ''2022_01_01'' = 0 \<and>
   fst (copy_photo flaky_world ''/in/a.jpg'' ''/out'' init_state) =
     Inl (Exn OSError ''[Errno 28] No space left on device'') \<and>
   counter_of (date_counters (snd (copy_photo flaky_world ''/in/a.jpg'' ''/out'' init_state)))
     ''2022_01_01'' = 1 \<and>
   written (snd (copy_photo flaky_world ''/in/a.jpg'' ''/out'' init_state)) = []"
proof -
  let ?e = "Exn OSError ''[Errno 28] No space left on device''"
  have z: "counter_of (date_counters init_state) ''2022_01_01'' = 0"
    by (simp add: counter_of_def init_state_def)
  have w0: "written init_state = []" by (simp add: init_state_def)
  from counter_consumed_on_failure [of flaky_world "''/in/a.jpg''" "''/out''" init_state]
  have "get_photo_datetime flaky_world ''/in/a.jpg'' = (Inr (morning 2022 1 1), []) \<and>
      copy2 flaky_world ''/in/a.jpg''
        (path_join ''/out''
           (strftime_Ymd (morning 2022 1 1) @ ''_'' @
            fmt_03d (counter_of (date_counters init_state) (strftime_Ymd (morning 2022 1 1)) + 1) @
            str_lower (splitext_ext ''/in/a.jpg''))) = Inl ?e \<longrightarrow>
      fst (copy_photo flaky_world ''/in/a.jpg'' ''/out'' init_state) = Inl ?e \<and>
      counter_of (date_counters (snd (copy_photo flaky_world ''/in/a.jpg'' ''/out'' init_state)))
          (strftime_Ymd (morning 2022 1 1)) =
        counter_of (date_counters init_state) (strftime_Ymd (morning 2022 1 1)) + 1 \<and>
      written (snd (copy_photo flaky_world ''/in/a.jpg'' ''/out'' init_state)) = written init_state"
    by blast
  moreover have "copy2 flaky_world ''/in/a.jpg''
        (path_join ''/out''
           (strftime_Ymd (morning 2022 1 1) @ ''_'' @
            fmt_03d (counter_of (date_counters init_state) (strftime_Ymd (morning 2022 1 1)) + 1) @
            str_lower (splitext_ext ''/in/a.jpg''))) = Inl ?e"
    unfolding flaky_name_a by (rule flaky_copy_a)
  ultimately have "fst (copy_photo flaky_world ''/in/a.jpg'' ''/out'' init_state) = Inl ?e \<and>
      counter_of (date_counters (snd (copy_photo flaky_world ''/in/a.jpg'' ''/out'' init_state)))
          (strftime_Ymd (morning 2022 1 1)) =
        counter_of (date_counters init_state) (strftime_Ymd (morning 2022 1 1)) + 1 \<and>
      written (snd (copy_photo flaky_world ''/in/a.jpg'' ''/out'' init_state)) = written init_state"
    using flaky_photo_a by blast
  then have "fst (copy_photo flaky_world ''/in/a.jpg'' ''/out'' init_state) = Inl ?e \<and>
      counter_of (date_counters (snd (copy_photo flaky_world ''/in/a.jpg'' ''/out'' init_state)))
          ''2022_01_01'' = 1 \<and>
      written (snd (copy_photo flaky_world ''/in/a.jpg'' ''/out'' init_state)) = []"
    unfolding flaky_key z w0 by simp
  with flaky_photo_a flaky_copy_a z show ?thesis by blast
qed

lemma fmt_03d_wide:
  assumes "1000 \<le> n"
  shows "fmt_03d n = digits (nat n)" and "3 < length (digits (nat n))"
proof -
  have "10 ^ 3 \<le> nat n" using assms by simp
  then show "3 < length (digits (nat n))" by (rule length_digits_ge)
  then show "fmt_03d n = digits (nat n)" using assms by (simp add: fmt_03d_def zfill_def)
qed

lemma fmt_03d_narrow:
  assumes "0 \<le> n" "n \<le> 999"
  shows "length (fmt_03d n) = 3"
proof -
  have "nat n < 10 ^ 3" using assms by simp
  then have "length (digits (nat n)) \<le> 3" by (rule length_digits_le) simp
  then show ?thesis using assms by (simp add: fmt_03d_def zfill_def)
qed

text \<open>
  C10.  When the table holds 999 or more for a date, the next name carries the new counter
  as its plain decimal digits, four or more of them, which read back as the counter:
  nothing is cut off, wrapped around or raised.  Up to 999 the counter takes exactly three
  characters.  Different counters are always written differently.  Name number 1000 of
  a day sorts before name number 999 of that day in the order of strings.
\<close>

theorem counter_beyond_999:
  "(999 \<le> counter_of (date_counters s) (strftime_Ymd dt) \<longrightarrow>
      fst (generate_name_with_counter dt ext s) =
        strftime_Ymd dt @ ''_'' @
        digits (nat (counter_of (date_counters s) (strftime_Ymd dt) + 1)) @ ext \<and>
      3 < length (digits (nat (counter_of (date_counters s) (strftime_Ymd dt) + 1))) \<and>
      int (dec_val (digits (nat (counter_of (date_counters s) (strftime_Ymd dt) + 1)))) =
        counter_of (date_counters s) (strftime_Ymd dt) + 1) \<and>
   (\<forall>n. 0 \<le> n \<and> n \<le> 999 \<longrightarrow> length (fmt_03d n) = 3) \<and>
   (\<forall>a b. 0 \<le> a \<and> 0 \<le> b \<and> fmt_03d a = fmt_03d b \<longrightarrow> a = b) \<and>
   fst (generate_name_with_counter (morning 2024 1 1) ''.jpg'' (table_at 998)) = ''2024_01_01_999.jpg'' \<and>
   fst (generate_name_with_counter (morning 2024 1 1) ''.jpg'' (table_at 999)) = ''2024_01_01_1000.jpg'' \<and>
   fst (generate_name_with_counter (morning 2024 1 1) ''.jpg'' (table_at 999)) <
     fst (generate_name_with_counter (morning 2024 1 1) ''.jpg'' (table_at 998))"
proof (intro conjI allI impI)
  assume a: "999 \<le> counter_of (date_counters s) (strftime_Ymd dt)"
  let ?c = "counter_of (date_counters s) (strftime_Ymd dt) + 1"
  have c: "1000 \<le> ?c" using a by simp
  show "fst (generate_name_with_counter dt ext s) = strftime_Ymd dt @ ''_'' @ digits (nat ?c) @ ext"
    by (simp add: gen_name_eq fmt_03d_wide(1) [OF c])
  show "3 < length (digits (nat ?c))" by (rule fmt_03d_wide(2) [OF c])
  show "int (dec_val (digits (nat ?c))) = ?c" using c by (simp add: dec_val_digits)
next
  fix n :: int
  assume "0 \<le> n \<and> n \<le> 999"
  then show "length (fmt_03d n) = 3" by (simp add: fmt_03d_narrow)
next
  fix a b :: int
  assume "0 \<le> a \<and> 0 \<le> b \<and> fmt_03d a = fmt_03d b"
  then show "a = b" using fmt_03d_inj by blast
next
  show "fst (generate_name_with_counter (morning 2024 1 1) ''.jpg'' (table_at 998)) = ''2024_01_01_999.jpg''"
    by code_simp
next
  show n1000: "fst (generate_name_with_counter (morning 2024 1 1) ''.jpg'' (table_at 999)) = ''2024_01_01_1000.jpg''"
    by code_simp
next
  show "fst (generate_name_with_counter (morning 2024 1 1) ''.jpg'' (table_at 999)) <
     fst (generate_name_with_counter (morning 2024 1 1) ''.jpg'' (table_at 998))"
    by code_simp
qed

lemma table_at_999: "counter_of (date_counters (table_at 999)) ''2024_01_01'' = 999"
  by (simp add: table_at_def counter_of_def)

lemma key_2024: "strftime_Ymd (morning 2024 1 1) = ''2024_01_01''"
  by code_simp

lemma digits_1000: "digits 1000 = ''1000''"
  by code_simp

theorem counter_beyond_999_witness:
  "(999::int) \<le> counter_of (date_counters (table_at 999)) ''2024_01_01'' \<and>
   fst (generate_name_with_counter (morning 2024 1 1) ''.png'' (table_at 999)) = ''2024_01_01_1000.png'' \<and>
   length (fmt_03d 7) = 3"
proof -
  note t = counter_beyond_999 [of "table_at 999" "morning 2024 1 1" "''.png''"]
  have h': "(999::int) \<le> counter_of (date_counters (table_at 999)) ''2024_01_01''"
    unfolding table_at_999 by simp
  then have h: "(999::int) \<le> counter_of (date_counters (table_at 999)) (strftime_Ymd (morning 2024 1 1))"
    unfolding key_2024 .
  from t h have "fst (generate_name_with_counter (morning 2024 1 1) ''.png'' (table_at 999)) =
        strftime_Ymd (morning 2024 1 1) @ ''_'' @
        digits (nat (counter_of (date_counters (table_at 999)) (strftime_Ymd (morning 2024 1 1)) + 1)) @ ''.png''"
    by blast
  then have a: "fst (generate_name_with_counter (morning 2024 1 1) ''.png'' (table_at 999)) = ''2024_01_01_1000.png''"
    unfolding key_2024 table_at_999 by (simp add: digits_1000)
  from t have "(0::int) \<le> 7 \<and> (7::int) \<le> 999 \<longrightarrow> length (fmt_03d 7) = 3" by blast
  then have b: "length (fmt_03d 7) = 3" by simp
  from a b h' show ?thesis by blast
qed

end
